theory Spec2Isabelle
  imports Main "HOL-Library.Word" "HOL-Library.Char_ord" "HOL-Library.List_Lexorder"
begin

unbundle bit_operations_syntax

section \<open>The shader source of the client (src/client/shader.cpp)\<close>

text \<open>
  A shallow embedding of \<^verbatim>\<open>ShaderSource\<close>, the registry that maps a shader name, a set
  of constants and a base material to the id of a generated shader, together with
  \<^verbatim>\<open>SourceShaderCache\<close>, \<^verbatim>\<open>getShaderPath\<close> and \<^verbatim>\<open>MainShaderConstantSetter\<close>.
  The object is a record that every member function takes and returns; everything
  outside the object (video driver, GPU programming services, file system, settings,
  the global path cache and the log streams) is the record \<open>World\<close>. An exception or
  a failed assertion is the \<open>Inl\<close> of the result, next to the state at that moment.
  The mutex around the vector does not show: calls are taken one after the other, each
  with the thread that makes it. What runs at draw time (\<^verbatim>\<open>ShaderCallback\<close>,
  \<^verbatim>\<open>MainShaderUniformSetter\<close>), the destructor and the overload of \<^verbatim>\<open>getShader\<close> for a
  tile material and a draw type are left out.
\<close>

subsection \<open>Numbers\<close>

text \<open>
  \<^verbatim>\<open>s32\<close>/\<^verbatim>\<open>int\<close>, \<^verbatim>\<open>s16\<close> and \<^verbatim>\<open>u16\<close> are words, read signed with \<open>sint\<close> where the code
  does. A \<^verbatim>\<open>float\<close> is its IEEE 754 binary32 bit pattern: sign in bit 31, exponent in
  bits 30..23, fraction in bits 22..0. Only comparison is needed: \<^verbatim>\<open>==\<close> is false as
  soon as one side is a NaN and identifies the two zeros; \<^verbatim>\<open><\<close> orders sign and
  magnitude.
\<close>

type_synonym s32 = "32 word"
type_synonym s16 = "16 word"
type_synonym u16 = "16 word"
type_synonym float = "32 word"

definition float_magnitude :: "float \<Rightarrow> 32 word" where
  "float_magnitude f = f AND 0x7FFFFFFF"

definition float_negative :: "float \<Rightarrow> bool" where
  "float_negative f = (f AND 0x80000000 \<noteq> 0)"

definition float_isnan :: "float \<Rightarrow> bool" where
  "float_isnan f = (0x7F800000 < float_magnitude f)"

definition float_iszero :: "float \<Rightarrow> bool" where
  "float_iszero f = (float_magnitude f = 0)"

definition float_eq :: "float \<Rightarrow> float \<Rightarrow> bool" where
  "float_eq a b =
     (\<not> float_isnan a \<and> \<not> float_isnan b \<and> (a = b \<or> (float_iszero a \<and> float_iszero b)))"

definition float_less :: "float \<Rightarrow> float \<Rightarrow> bool" where
  "float_less a b =
     (if float_isnan a \<or> float_isnan b then False
      else if float_iszero a \<and> float_iszero b then False
      else if float_negative a \<and> \<not> float_negative b then True
      else if \<not> float_negative a \<and> float_negative b then False
      else if float_negative a then float_magnitude b < float_magnitude a
      else float_magnitude a < float_magnitude b)"

text \<open>\<^verbatim>\<open>std::max(a, b)\<close> is \<^verbatim>\<open>(a < b) ? b : a\<close>.\<close>

definition float_max :: "float \<Rightarrow> float \<Rightarrow> float" where
  "float_max a b = (if float_less a b then b else a)"

definition u16_max :: "u16 \<Rightarrow> u16 \<Rightarrow> u16" where
  "u16_max a b = (if a < b then b else a)"

text \<open>The bit pattern of \<^verbatim>\<open>1.f\<close>.\<close>

definition float_one :: float where
  "float_one = 0x3F800000"

text \<open>Decimal output of an integer, as \<^verbatim>\<open>operator<<\<close> writes it.\<close>

fun dec_nat :: "nat \<Rightarrow> string" where
  "dec_nat n = (if n < 10 then [char_of (48 + n)]
                else dec_nat (n div 10) @ [char_of (48 + n mod 10)])"

declare dec_nat.simps [simp del]

definition dec_int :: "int \<Rightarrow> string" where
  "dec_int i = (if i < 0 then ''-'' @ dec_nat (nat (- i)) else dec_nat (nat i))"

subsection \<open>Strings\<close>

text \<open>\<^verbatim>\<open>std::isspace\<close> in the C locale: space, and the controls 9 to 13.\<close>

definition isspace :: "char \<Rightarrow> bool" where
  "isspace c = (c = CHR '' '' \<or> (9 \<le> (of_char c :: nat) \<and> (of_char c :: nat) \<le> 13))"

text \<open>
  Modelled from the spec: \<^verbatim>\<open>trim\<close> is declared in util/string.h, which is not among
  the sources; the spec calls a key trimmed when it has no leading and no trailing
  whitespace, so \<open>trim\<close> drops both.
\<close>

definition trim :: "string \<Rightarrow> string" where
  "trim s = rev (dropWhile isspace (rev (dropWhile isspace s)))"

text \<open>\<^verbatim>\<open>strstr(haystack, needle) != nullptr\<close>: the needle starts somewhere in the haystack.\<close>

fun starts_with :: "string \<Rightarrow> string \<Rightarrow> bool" where
  "starts_with s [] = True"
| "starts_with [] (c # cs) = False"
| "starts_with (d # ds) (c # cs) = (d = c \<and> starts_with ds cs)"

fun strstr :: "string \<Rightarrow> string \<Rightarrow> bool" where
  "strstr [] needle = (needle = [])"
| "strstr (c # cs) needle = (starts_with (c # cs) needle \<or> strstr cs needle)"

subsection \<open>Shader constants\<close>

text \<open>
  Modelled from the spec: the alias \<^verbatim>\<open>ShaderConstants\<close> is declared in shader.h, which is
  not among the sources. The spec has an ordered mapping from a macro name to a tagged
  integer or floating point value; the code uses it as a \<^verbatim>\<open>std::map\<close> from \<^verbatim>\<open>std::string\<close>
  to \<^verbatim>\<open>std::variant<int, float>\<close> (\<^verbatim>\<open>ShaderConstants::mapped_type\<close>, \<^verbatim>\<open>std::get_if<int>\<close>,
  \<^verbatim>\<open>std::get<float>\<close>, \<^verbatim>\<open>constants[key] = value\<close>, \<^verbatim>\<open>==\<close>). The map is the list of its
  entries in iteration order, ascending in the keys for \<^verbatim>\<open>std::map\<close>; \<open>assign\<close> is
  \<^verbatim>\<open>constants[key] = value\<close> and keeps that order. No property below depends on where
  \<open>assign\<close> puts a new key.
\<close>

datatype ShaderConstant = IntConst s32 | FloatConst float

type_synonym ShaderConstants = "(string \<times> ShaderConstant) list"

fun assign :: "ShaderConstants \<Rightarrow> string \<Rightarrow> ShaderConstant \<Rightarrow> ShaderConstants" where
  "assign [] key v = [(key, v)]"
| "assign ((k, x) # rest) key v =
     (if key < k then (key, v) # (k, x) # rest
      else if key = k then (k, v) # rest
      else (k, x) # assign rest key v)"

text \<open>
  \<^verbatim>\<open>operator==\<close> of the variant: the same alternative, holding equal values.
  \<^verbatim>\<open>operator==\<close> of the map: the same size, and entry by entry equal keys and equal
  values.
\<close>

fun variant_eq :: "ShaderConstant \<Rightarrow> ShaderConstant \<Rightarrow> bool" where
  "variant_eq (IntConst a) (IntConst b) = (a = b)"
| "variant_eq (FloatConst a) (FloatConst b) = float_eq a b"
| "variant_eq (IntConst a) (FloatConst b) = False"
| "variant_eq (FloatConst a) (IntConst b) = False"

fun constants_eq :: "ShaderConstants \<Rightarrow> ShaderConstants \<Rightarrow> bool" where
  "constants_eq [] [] = True"
| "constants_eq ((k, v) # xs) ((k', v') # ys) = (k = k' \<and> variant_eq v v' \<and> constants_eq xs ys)"
| "constants_eq [] (y # ys) = False"
| "constants_eq (x # xs) [] = False"

subsection \<open>Materials, drivers and shader records\<close>

text \<open>
  Modelled from the spec: \<^verbatim>\<open>video::E_MATERIAL_TYPE\<close> and \<^verbatim>\<open>video::E_DRIVER_TYPE\<close> are
  enumerations of the rendering library, whose headers are not among the sources; the
  spec has the base material as an opaque enumerated tag and the compiled handle as
  a token of the same type. The code casts the \<^verbatim>\<open>s32\<close> that the compiler returns to
  \<^verbatim>\<open>E_MATERIAL_TYPE\<close>, so a material is its \<^verbatim>\<open>s32\<close> value; the five enumerators that the
  code names are numbered from 0 in the order of the library's declaration, and only
  their being distinct is used. The driver types are compared with named enumerators
  only.
\<close>

type_synonym E_MATERIAL_TYPE = s32

definition EMT_SOLID :: E_MATERIAL_TYPE where "EMT_SOLID = 0"
definition EMT_TRANSPARENT_ALPHA_CHANNEL :: E_MATERIAL_TYPE where "EMT_TRANSPARENT_ALPHA_CHANNEL = 1"
definition EMT_TRANSPARENT_ALPHA_CHANNEL_REF :: E_MATERIAL_TYPE where "EMT_TRANSPARENT_ALPHA_CHANNEL_REF = 2"
definition EMT_TRANSPARENT_VERTEX_ALPHA :: E_MATERIAL_TYPE where "EMT_TRANSPARENT_VERTEX_ALPHA = 3"
definition EMT_ONETEXTURE_BLEND :: E_MATERIAL_TYPE where "EMT_ONETEXTURE_BLEND = 4"

datatype E_DRIVER_TYPE = EDT_NULL | EDT_OPENGL | EDT_OPENGL3 | EDT_OGLES2 | EDT_WEBGL1

record ShaderInfo =
  name :: string
  base_material :: E_MATERIAL_TYPE
  material :: E_MATERIAL_TYPE
  input_constants :: ShaderConstants

text \<open>
  Modelled from the spec: the struct \<^verbatim>\<open>ShaderInfo\<close> is declared in shader.h, which is
  not among the sources. A default-constructed record is the sentinel of the spec:
  empty name, default material; the source says of id 0 "Its material is EMT_SOLID".
\<close>

definition ShaderInfo_default :: ShaderInfo where
  "ShaderInfo_default =
     \<lparr>name = [], base_material = EMT_SOLID, material = EMT_SOLID, input_constants = []\<rparr>"

subsection \<open>The world outside the object\<close>

text \<open>
  What the code reaches through \<^verbatim>\<open>RenderingEngine::get_video_driver()\<close>, \<^verbatim>\<open>GL\<close>,
  \<^verbatim>\<open>g_settings\<close>, \<^verbatim>\<open>fs\<close>, \<^verbatim>\<open>porting\<close>, \<^verbatim>\<open>gettext\<close> and the log streams. None of it is
  among the sources, so each collaborator is a field: a value it reports, a function
  that answers for it, or the state it keeps.
  \<^item> The GPU programming services keep the list of the calls made to them;
    \<open>addHighLevelShaderMaterial\<close> gives the \<^verbatim>\<open>s32\<close> a compilation returns after the
    calls so far (\<open>-1\<close> when it fails).
  \<^item> \<open>float_text showpoint f\<close> is what \<^verbatim>\<open>operator<<\<close> writes for a \<^verbatim>\<open>float\<close>, with or
    without the \<^verbatim>\<open>std::showpoint\<close> flag.
  \<^item> A log stream is the list of the lines written to it.
\<close>

datatype IShaderUniformSetterFactory = MainShaderUniformSetterFactory | UniformSetterFactory nat

datatype gpu_call =
    AddHighLevelShaderMaterial string string "string option" string
      "IShaderUniformSetterFactory list" E_MATERIAL_TYPE
  | DeleteShaderMaterial E_MATERIAL_TYPE

record World =
  driverType :: E_DRIVER_TYPE
  feature_ARB_GLSL :: bool
  gpu_present :: bool
  GL_RENDERER :: string
  gpu_calls :: "gpu_call list"
  addHighLevelShaderMaterial :: "gpu_call list \<Rightarrow> gpu_call \<Rightarrow> s32"
  DIR_DELIM :: string
  path_share :: string
  PathExists :: "string \<Rightarrow> bool"
  ReadFile :: "string \<Rightarrow> string option"
  setting_get :: "string \<Rightarrow> string"
  getBool :: "string \<Rightarrow> bool"
  getS32 :: "string \<Rightarrow> s32"
  getU16 :: "string \<Rightarrow> u16"
  getFloat :: "string \<Rightarrow> float"
  g_shadername_to_path_cache :: "string \<rightharpoonup> string"
  float_text :: "bool \<Rightarrow> float \<Rightarrow> string"
  gettext :: "string \<Rightarrow> string"
  fmtgettext :: "string \<Rightarrow> string \<Rightarrow> string"
  errorstream :: "string list"
  warningstream :: "string list"
  infostream :: "string list"

datatype exn = ShaderException string | AssertionFailed string

subsection \<open>getShaderPath and SourceShaderCache\<close>

definition getShaderPath :: "string \<Rightarrow> string \<Rightarrow> World \<Rightarrow> string \<times> World" where
  "getShaderPath name_of_shader filename w =
     (let combined = name_of_shader @ DIR_DELIM w @ filename in
      case g_shadername_to_path_cache w combined of
        Some fullpath \<Rightarrow> (fullpath, w)
      | None \<Rightarrow>
          let shader_path = setting_get w ''shader_path'';
              testpath = shader_path @ DIR_DELIM w @ combined;
              fullpath = (if shader_path \<noteq> [] \<and> PathExists w testpath then testpath else []);
              rel_path = ''client'' @ DIR_DELIM w @ ''shaders'' @ DIR_DELIM w
                         @ name_of_shader @ DIR_DELIM w @ filename;
              testpath' = path_share w @ DIR_DELIM w @ rel_path;
              fullpath' = (if fullpath = [] \<and> PathExists w testpath' then testpath' else fullpath)
          in (fullpath',
              w\<lparr>g_shadername_to_path_cache := (g_shadername_to_path_cache w)(combined \<mapsto> fullpath')\<rparr>))"

text \<open>The private \<^verbatim>\<open>readFile\<close>: the file's text, empty when reading fails.\<close>

definition readFile :: "World \<Rightarrow> string \<Rightarrow> string" where
  "readFile w path = (case ReadFile w path of Some ret \<Rightarrow> ret | None \<Rightarrow> [])"

type_synonym SourceShaderCache = "string \<rightharpoonup> string"

definition SourceShaderCache_insert ::
  "string \<Rightarrow> string \<Rightarrow> string \<Rightarrow> bool \<Rightarrow> SourceShaderCache \<Rightarrow> World \<Rightarrow> SourceShaderCache \<times> World" where
  "SourceShaderCache_insert name_of_shader filename program prefer_local m_programs w =
     (let combined = name_of_shader @ DIR_DELIM w @ filename in
      if prefer_local then
        (case getShaderPath name_of_shader filename w of
           (path, w') \<Rightarrow>
             if path \<noteq> [] \<and> readFile w' path \<noteq> []
             then (m_programs(combined \<mapsto> readFile w' path), w')
             else (m_programs(combined \<mapsto> program), w'))
      else (m_programs(combined \<mapsto> program), w))"

definition SourceShaderCache_get :: "string \<Rightarrow> string \<Rightarrow> SourceShaderCache \<Rightarrow> World \<Rightarrow> string" where
  "SourceShaderCache_get name_of_shader filename m_programs w =
     (case m_programs (name_of_shader @ DIR_DELIM w @ filename) of
        Some p \<Rightarrow> p
      | None \<Rightarrow> [])"

definition SourceShaderCache_getOrLoad ::
  "string \<Rightarrow> string \<Rightarrow> SourceShaderCache \<Rightarrow> World \<Rightarrow> string \<times> SourceShaderCache \<times> World" where
  "SourceShaderCache_getOrLoad name_of_shader filename m_programs w =
     (let combined = name_of_shader @ DIR_DELIM w @ filename in
      case m_programs combined of
        Some p \<Rightarrow> (p, m_programs, w)
      | None \<Rightarrow>
          (case getShaderPath name_of_shader filename w of
             (path, w') \<Rightarrow>
               if path = [] then
                 ([], m_programs,
                  w'\<lparr>infostream := infostream w' @
                     [''SourceShaderCache::getOrLoad(): No path found for \"'' @ combined @ ''\"'']\<rparr>)
               else
                 let w'' = w'\<lparr>infostream := infostream w' @
                             [''SourceShaderCache::getOrLoad(): Loading path \"'' @ path @ ''\"'']\<rparr>;
                     p = readFile w'' path
                 in if p \<noteq> [] then (p, m_programs(combined \<mapsto> p), w'')
                    else ([], m_programs, w'')))"

subsection \<open>Constant setters\<close>

text \<open>
  An \<^verbatim>\<open>IShaderConstantSetter\<close> is its \<^verbatim>\<open>onGenerate\<close>: given the shader's name it changes
  the constants it is handed; what it writes may depend on the world (the settings).
\<close>

type_synonym IShaderConstantSetter = "World \<Rightarrow> string \<Rightarrow> ShaderConstants \<Rightarrow> ShaderConstants"

text \<open>\<^verbatim>\<open>if (cond) constants[key] = v;\<close>\<close>

definition assign_if :: "bool \<Rightarrow> ShaderConstants \<Rightarrow> string \<Rightarrow> ShaderConstant \<Rightarrow> ShaderConstants" where
  "assign_if cond constants key v = (if cond then assign constants key v else constants)"

definition MainShaderConstantSetter_shadows :: "World \<Rightarrow> ShaderConstants \<Rightarrow> ShaderConstants" where
  "MainShaderConstantSetter_shadows w c0 =
     (let c1 = assign c0 ''ENABLE_DYNAMIC_SHADOWS'' (IntConst 1);
          c2 = assign_if (getBool w ''shadow_map_color'') c1 ''COLORED_SHADOWS'' (IntConst 1);
          c3 = assign_if (getBool w ''shadow_poisson_filter'') c2 ''POISSON_FILTER'' (IntConst 1);
          c4 = assign_if (getBool w ''enable_water_reflections'') c3 ''ENABLE_WATER_REFLECTIONS'' (IntConst 1);
          c5 = assign_if (getBool w ''enable_translucent_foliage'') c4 ''ENABLE_TRANSLUCENT_FOLIAGE'' (IntConst 1);
          c6 = assign_if False c5 ''ENABLE_NODE_SPECULAR'' (IntConst 1);
          c7 = assign c6 ''SHADOW_FILTER'' (IntConst (getS32 w ''shadow_filters''))
      in assign c7 ''SOFTSHADOWRADIUS''
           (FloatConst (float_max float_one (getFloat w ''shadow_soft_radius''))))"

definition MainShaderConstantSetter_bloom :: "World \<Rightarrow> ShaderConstants \<Rightarrow> ShaderConstants" where
  "MainShaderConstantSetter_bloom w c0 =
     (let c1 = assign c0 ''ENABLE_BLOOM'' (IntConst 1)
      in assign_if (getBool w ''enable_bloom_debug'') c1 ''ENABLE_BLOOM_DEBUG'' (IntConst 1))"

definition MainShaderConstantSetter_ssaa :: "World \<Rightarrow> ShaderConstants \<Rightarrow> ShaderConstants" where
  "MainShaderConstantSetter_ssaa w c0 =
     (let c1 = assign c0 ''ENABLE_SSAA'' (IntConst 1)
      in assign c1 ''SSAA_SCALE'' (IntConst (ucast (u16_max 2 (getU16 w ''fsaa'')))))"

definition MainShaderConstantSetter_onGenerate :: IShaderConstantSetter where
  "MainShaderConstantSetter_onGenerate w shader_name c0 =
     (let c1 = assign c0 ''ENABLE_TONE_MAPPING'' (IntConst (if getBool w ''tone_mapping'' then 1 else 0));
          c2 = (if getBool w ''enable_dynamic_shadows'' then MainShaderConstantSetter_shadows w c1 else c1);
          c3 = (if getBool w ''enable_bloom'' then MainShaderConstantSetter_bloom w c2 else c2);
          c4 = assign_if (getBool w ''enable_auto_exposure'') c3 ''ENABLE_AUTO_EXPOSURE'' (IntConst 1);
          c5 = (if setting_get w ''antialiasing'' = ''ssaa'' then MainShaderConstantSetter_ssaa w c4 else c4);
          c6 = assign_if (getBool w ''debanding'') c5 ''ENABLE_DITHERING'' (IntConst 1)
      in assign_if (getBool w ''enable_volumetric_lighting'') c6 ''VOLUMETRIC_LIGHT'' (IntConst 1))"

subsection \<open>Generating a shader\<close>

text \<open>
  A raw string literal of the source that starts with a line break, holds lines
  indented by \<open>n\<close> tabs (an empty line has none) and ends, after the last line break,
  with the \<open>n - 1\<close> tabs in front of its closing delimiter.
\<close>

definition raw_line :: "nat \<Rightarrow> string \<Rightarrow> string" where
  "raw_line n l = (if l = [] then [] else replicate n (CHR 0x09) @ l) @ ''\<newline>''"

definition raw_string :: "nat \<Rightarrow> string list \<Rightarrow> string" where
  "raw_string n ls = ''\<newline>'' @ concat (map (raw_line n) ls) @ replicate (n - 1) (CHR 0x09)"

definition fully_programmable :: "World \<Rightarrow> bool" where
  "fully_programmable w = (driverType w = EDT_OGLES2 \<or> driverType w = EDT_OPENGL3)"

text \<open>What \<^verbatim>\<open>shaders_header\<close> holds before the constants are written to it.\<close>

definition shaders_header_version :: "World \<Rightarrow> string" where
  "shaders_header_version w =
     (if fully_programmable w then
        (if driverType w = EDT_OPENGL3 then ''#version 150\<newline>'' else ''#version 100\<newline>'')
      else raw_string 3 [''#version 120'', ''#define lowp'', ''#define mediump'', ''#define highp''])"

definition vertex_header :: "World \<Rightarrow> string" where
  "vertex_header w =
     (if fully_programmable w then
        raw_string 3
          [''precision mediump float;'',
           [],
           ''uniform highp mat4 mWorldView;'',
           ''uniform highp mat4 mWorldViewProj;'',
           ''uniform mediump mat4 mTexture;'',
           [],
           ''attribute highp vec4 inVertexPosition;'',
           ''attribute lowp vec4 inVertexColor;'',
           ''attribute mediump vec2 inTexCoord0;'',
           ''attribute mediump vec3 inVertexNormal;'',
           ''attribute mediump vec4 inVertexTangent;'',
           ''attribute mediump vec4 inVertexBinormal;'']
        @ ''#define inVertexColor (inVertexColor.bgra)\<newline>''
      else
        raw_string 3
          [''#define mWorldView gl_ModelViewMatrix'',
           ''#define mWorldViewProj gl_ModelViewProjectionMatrix'',
           ''#define mTexture (gl_TextureMatrix[0])'',
           [],
           ''#define inVertexPosition gl_Vertex'',
           ''#define inVertexColor gl_Color'',
           ''#define inTexCoord0 gl_MultiTexCoord0'',
           ''#define inVertexNormal gl_Normal'',
           ''#define inVertexTangent gl_MultiTexCoord1'',
           ''#define inVertexBinormal gl_MultiTexCoord2''])"

definition fragment_header :: "World \<Rightarrow> string" where
  "fragment_header w =
     (if fully_programmable w then raw_string 3 [''precision mediump float;''] else [])
     @ raw_string 2
         [''#define baseTexture texture0'',
          ''#define normalTexture texture1'',
          ''#define textureFlags texture2'']"

definition geometry_header :: string where
  "geometry_header = []"

definition final_header :: string where
  "final_header = ''#line 0\<newline>''"

text \<open>\<^verbatim>\<open>putConstant\<close>: the \<^verbatim>\<open>int\<close> alternative in decimal, the other as a \<^verbatim>\<open>float\<close>.\<close>

definition putConstant :: "World \<Rightarrow> bool \<Rightarrow> ShaderConstant \<Rightarrow> string" where
  "putConstant w showpoint it =
     (case it of IntConst ival \<Rightarrow> dec_int (sint ival) | FloatConst f \<Rightarrow> float_text w showpoint f)"

text \<open>
  The loop that builds \<^verbatim>\<open>log_name\<close>, "Unique name of this shader, for debug/logging":
  before each constant it tests the size of the name built so far.
\<close>

fun log_name_loop :: "World \<Rightarrow> string \<Rightarrow> ShaderConstants \<Rightarrow> string" where
  "log_name_loop w log_name [] = log_name"
| "log_name_loop w log_name ((key, v) # rest) =
     (if 60 < length log_name then log_name @ ''...''
      else log_name_loop w (log_name @ '' '' @ key @ ''='' @ putConstant w False v) rest)"

definition make_log_name :: "World \<Rightarrow> string \<Rightarrow> ShaderConstants \<Rightarrow> string" where
  "make_log_name w shader_name input_const = log_name_loop w shader_name input_const"

definition use_discard :: "World \<Rightarrow> bool" where
  "use_discard w = (fully_programmable w \<or> strstr (GL_RENDERER w) ''GC7000'')"

definition discard_constants :: "World \<Rightarrow> E_MATERIAL_TYPE \<Rightarrow> ShaderConstants \<Rightarrow> ShaderConstants" where
  "discard_constants w base_mat constants =
     (if use_discard w then
        (if base_mat = EMT_TRANSPARENT_ALPHA_CHANNEL then assign constants ''USE_DISCARD'' (IntConst 1)
         else if base_mat = EMT_TRANSPARENT_ALPHA_CHANNEL_REF then assign constants ''USE_DISCARD_REF'' (IntConst 1)
         else constants)
      else constants)"

text \<open>"Let the constant setters do their job and emit constants": in the order of the vector.\<close>

fun run_setters :: "IShaderConstantSetter list \<Rightarrow> World \<Rightarrow> string \<Rightarrow> ShaderConstants \<Rightarrow> ShaderConstants" where
  "run_setters [] w shader_name constants = constants"
| "run_setters (setter # rest) w shader_name constants =
     run_setters rest w shader_name (setter w shader_name constants)"

text \<open>The constants a generation defines: the caller's, the discard flag, the setters'.\<close>

definition generated_constants ::
  "IShaderConstantSetter list \<Rightarrow> World \<Rightarrow> string \<Rightarrow> ShaderConstants \<Rightarrow> E_MATERIAL_TYPE \<Rightarrow> ShaderConstants" where
  "generated_constants setters w shader_name input_const base_mat =
     run_setters setters w shader_name (discard_constants w base_mat input_const)"

text \<open>
  The loop that writes one \<^verbatim>\<open>#define\<close> line per constant to \<^verbatim>\<open>shaders_header\<close>
  (which has \<^verbatim>\<open>std::showpoint\<close> set), asserting that each key is trimmed.
\<close>

fun emit_constants :: "World \<Rightarrow> ShaderConstants \<Rightarrow> exn + string" where
  "emit_constants w [] = Inr []"
| "emit_constants w ((key, v) # rest) =
     (if trim key \<noteq> key then Inl (AssertionFailed ''trim(it.first) == it.first'')
      else case emit_constants w rest of
             Inl e \<Rightarrow> Inl e
           | Inr defines \<Rightarrow>
               Inr (''#define '' @ key @ '' '' @ putConstant w True v @ ''\<newline>'' @ defines))"

text \<open>\<^verbatim>\<open>dumpShaderProgram\<close>: the lines it writes, the program's lines numbered by an \<^verbatim>\<open>s16\<close>.\<close>

fun split_lines :: "string \<Rightarrow> string \<Rightarrow> string list" where
  "split_lines cur [] = [cur]"
| "split_lines cur (c # cs) =
     (if c = CHR 0x0A then cur # split_lines [] cs else split_lines (cur @ [c]) cs)"

fun number_lines :: "s16 \<Rightarrow> string list \<Rightarrow> string list" where
  "number_lines line [] = []"
| "number_lines line (l # ls) = (dec_int (sint line) @ '': '' @ l) # number_lines (line + 1) ls"

definition dumpShaderProgram :: "string \<Rightarrow> string \<Rightarrow> string list" where
  "dumpShaderProgram program_type program =
     [program_type @ '' shader program:'', ''----------------------------------'']
     @ number_lines 1 (split_lines [] program)
     @ [''End of '' @ program_type @ '' shader program.'', '' '']"

subsection \<open>ShaderSource\<close>

type_synonym thread_id = nat

record ShaderSource =
  m_main_thread :: thread_id
  m_sourcecache :: SourceShaderCache
  m_shaderinfo_cache :: "ShaderInfo list"
  m_constant_setters :: "IShaderConstantSetter list"
  m_uniform_factories :: "IShaderUniformSetterFactory list"

text \<open>
  \<^verbatim>\<open>generateShader\<close> from "Create shaders header" to its end: the record so far is
  \<open>shaderinfo\<close>, the driver is neither the null driver nor one without GLSL.
\<close>

definition generateShader_compile ::
  "ShaderInfo \<Rightarrow> ShaderSource \<Rightarrow> World \<Rightarrow> (exn + ShaderInfo) \<times> ShaderSource \<times> World" where
  "generateShader_compile shaderinfo s w =
     (let log_name = make_log_name w (name shaderinfo) (input_constants shaderinfo);
          constants = generated_constants (m_constant_setters s) w (name shaderinfo)
                        (input_constants shaderinfo) (base_material shaderinfo)
      in case emit_constants w constants of
           Inl e \<Rightarrow> (Inl e, s, w)
         | Inr defines \<Rightarrow>
            (case SourceShaderCache_getOrLoad (name shaderinfo) ''opengl_vertex.glsl'' (m_sourcecache s) w of
               (vertex_source, cache1, w1) \<Rightarrow>
            (case SourceShaderCache_getOrLoad (name shaderinfo) ''opengl_fragment.glsl'' cache1 w1 of
               (fragment_source, cache2, w2) \<Rightarrow>
            (case SourceShaderCache_getOrLoad (name shaderinfo) ''opengl_geometry.glsl'' cache2 w2 of
               (geometry_source, cache3, w3) \<Rightarrow>
               let common_header = shaders_header_version w @ defines;
                   vertex_shader = common_header @ vertex_header w @ final_header @ vertex_source;
                   fragment_shader = common_header @ fragment_header w @ final_header @ fragment_source;
                   geometry_shader =
                     (if geometry_source \<noteq> []
                      then common_header @ geometry_header @ final_header @ geometry_source
                      else geometry_source);
                   geometry_shader_ptr = (if geometry_source \<noteq> [] then Some geometry_shader else None);
                   call = AddHighLevelShaderMaterial vertex_shader fragment_shader geometry_shader_ptr
                            log_name (m_uniform_factories s) (base_material shaderinfo);
                   w4 = w3\<lparr>infostream := infostream w3 @ [''Compiling high level shaders for '' @ log_name]\<rparr>;
                   shadermat = addHighLevelShaderMaterial w4 (gpu_calls w4) call;
                   w5 = w4\<lparr>gpu_calls := gpu_calls w4 @ [call]\<rparr>;
                   s' = s\<lparr>m_sourcecache := cache3\<rparr>
               in if shadermat = - 1 then
                    (Inl (ShaderException
                            (fmtgettext w5 ''Failed to compile the \"%s\" shader.'' log_name
                             @ gettext w5 ''\<newline>Check debug.txt for details.'')),
                     s',
                     w5\<lparr>errorstream := errorstream w5 @
                           [''generateShader(): failed to generate shaders for '' @ log_name
                            @ '', addHighLevelShaderMaterial failed.''],
                         warningstream := warningstream w5
                           @ dumpShaderProgram ''Vertex'' vertex_shader
                           @ dumpShaderProgram ''Fragment'' fragment_shader
                           @ dumpShaderProgram ''Geometry'' geometry_shader\<rparr>)
                  else (Inr (shaderinfo\<lparr>material := shadermat\<rparr>), s', w5)))))"

definition generateShader ::
  "string \<Rightarrow> ShaderConstants \<Rightarrow> E_MATERIAL_TYPE \<Rightarrow> ShaderSource \<Rightarrow> World
     \<Rightarrow> (exn + ShaderInfo) \<times> ShaderSource \<times> World" where
  "generateShader shader_name input_const base_mat s w =
     (if \<not> (base_mat \<noteq> EMT_TRANSPARENT_VERTEX_ALPHA \<and> base_mat \<noteq> EMT_ONETEXTURE_BLEND) then
        (Inl (AssertionFailed
           ''base_mat != video::EMT_TRANSPARENT_VERTEX_ALPHA && base_mat != video::EMT_ONETEXTURE_BLEND''),
         s, w)
      else
        let shaderinfo = \<lparr>name = shader_name, base_material = base_mat, material = base_mat,
                           input_constants = input_const\<rparr>
        in if driverType w = EDT_NULL then (Inr shaderinfo, s, w)
           else if \<not> feature_ARB_GLSL w \<or> \<not> gpu_present w then
             (Inl (ShaderException (gettext w ''GLSL is not supported by the driver'')), s, w)
           else generateShader_compile shaderinfo s w)"

text \<open>
  The constructor, run by the thread \<open>this_thread\<close>: the dummy record at index 0, the
  main constant setter and the main uniform setter factory.
\<close>

definition ShaderSource_new :: "thread_id \<Rightarrow> ShaderSource" where
  "ShaderSource_new this_thread =
     \<lparr>m_main_thread = this_thread,
      m_sourcecache = Map.empty,
      m_shaderinfo_cache = [ShaderInfo_default],
      m_constant_setters = [MainShaderConstantSetter_onGenerate],
      m_uniform_factories = [MainShaderUniformSetterFactory]\<rparr>"

definition addShaderConstantSetter :: "IShaderConstantSetter \<Rightarrow> ShaderSource \<Rightarrow> ShaderSource" where
  "addShaderConstantSetter setter s = s\<lparr>m_constant_setters := m_constant_setters s @ [setter]\<rparr>"

definition addShaderUniformSetterFactory :: "IShaderUniformSetterFactory \<Rightarrow> ShaderSource \<Rightarrow> ShaderSource" where
  "addShaderUniformSetterFactory setter s = s\<lparr>m_uniform_factories := m_uniform_factories s @ [setter]\<rparr>"

text \<open>
  The scan "Check if already have such instance": the first index, from \<open>i\<close> on, whose
  record has the name, the base material and constants equal to the ones asked for.
  An id is a \<^verbatim>\<open>u32\<close>; it is a natural number here, the vector being far shorter than
  \<open>2 ^ 32\<close> records.
\<close>

fun find_shader :: "ShaderInfo list \<Rightarrow> nat \<Rightarrow> string \<Rightarrow> ShaderConstants \<Rightarrow> E_MATERIAL_TYPE \<Rightarrow> nat option" where
  "find_shader [] i shader_name input_const base_mat = None"
| "find_shader (info # rest) i shader_name input_const base_mat =
     (if name info = shader_name \<and> base_material info = base_mat \<and>
         constants_eq (input_constants info) input_const
      then Some i
      else find_shader rest (Suc i) shader_name input_const base_mat)"

text \<open>Every member function takes the calling thread first.\<close>

definition getShaderIdDirect ::
  "thread_id \<Rightarrow> string \<Rightarrow> ShaderConstants \<Rightarrow> E_MATERIAL_TYPE \<Rightarrow> ShaderSource \<Rightarrow> World
     \<Rightarrow> (exn + nat) \<times> ShaderSource \<times> World" where
  "getShaderIdDirect this_thread shader_name input_const base_mat s w =
     (if shader_name = [] then
        (Inr 0, s, w\<lparr>infostream := infostream w @ [''getShaderIdDirect(): name is empty'']\<rparr>)
      else
        case find_shader (m_shaderinfo_cache s) 0 shader_name input_const base_mat of
          Some i \<Rightarrow> (Inr i, s, w)
        | None \<Rightarrow>
            if this_thread \<noteq> m_main_thread s then
              (Inr 0, s,
               w\<lparr>errorstream := errorstream w @
                    [''ShaderSource::getShaderIdDirect() called not from main thread'']\<rparr>)
            else
              (case generateShader shader_name input_const base_mat s w of
                 (Inl e, s', w') \<Rightarrow> (Inl e, s', w')
               | (Inr info, s', w') \<Rightarrow>
                   (Inr (length (m_shaderinfo_cache s')),
                    s'\<lparr>m_shaderinfo_cache := m_shaderinfo_cache s' @ [info]\<rparr>, w')))"

definition getShader ::
  "thread_id \<Rightarrow> string \<Rightarrow> ShaderConstants \<Rightarrow> E_MATERIAL_TYPE \<Rightarrow> ShaderSource \<Rightarrow> World
     \<Rightarrow> (exn + nat) \<times> ShaderSource \<times> World" where
  "getShader this_thread shader_name input_const base_mat s w =
     (if this_thread = m_main_thread s then
        getShaderIdDirect this_thread shader_name input_const base_mat s w
      else
        (Inr 0, s,
         w\<lparr>errorstream := errorstream w @
              [''ShaderSource::getShader(): getting from other thread not implemented'']\<rparr>))"

definition getShaderInfo :: "ShaderSource \<Rightarrow> nat \<Rightarrow> ShaderInfo" where
  "getShaderInfo s shader_id =
     (if shader_id \<ge> length (m_shaderinfo_cache s) then ShaderInfo_default
      else m_shaderinfo_cache s ! shader_id)"

definition processQueue :: "ShaderSource \<Rightarrow> World \<Rightarrow> ShaderSource \<times> World" where
  "processQueue s w = (s, w)"

definition insertSourceShader ::
  "thread_id \<Rightarrow> string \<Rightarrow> string \<Rightarrow> string \<Rightarrow> ShaderSource \<Rightarrow> World
     \<Rightarrow> (exn + unit) \<times> ShaderSource \<times> World" where
  "insertSourceShader this_thread name_of_shader filename program s w =
     (if this_thread \<noteq> m_main_thread s then
        (Inl (AssertionFailed ''std::this_thread::get_id() == m_main_thread''), s, w)
      else
        case SourceShaderCache_insert name_of_shader filename program True (m_sourcecache s) w of
          (m_programs, w') \<Rightarrow> (Inr (), s\<lparr>m_sourcecache := m_programs\<rparr>, w'))"

text \<open>
  \<^verbatim>\<open>rebuildShaders\<close>, first loop: every record with a name has its material deleted
  and set to \<^verbatim>\<open>EMT_SOLID\<close>.
\<close>

fun delete_materials :: "ShaderInfo list \<Rightarrow> World \<Rightarrow> ShaderInfo list \<times> World" where
  "delete_materials [] w = ([], w)"
| "delete_materials (i # rest) w =
     (if name i \<noteq> [] then
        (case delete_materials rest
                (w\<lparr>gpu_calls := gpu_calls w @ [DeleteShaderMaterial (material i)]\<rparr>) of
           (rest', w') \<Rightarrow> (i\<lparr>material := EMT_SOLID\<rparr> # rest', w'))
      else
        (case delete_materials rest w of (rest', w') \<Rightarrow> (i # rest', w')))"

text \<open>
  Second loop: every record with a name is generated again from its own name,
  constants and base material and assigned in place; \<open>passed\<close> are the records already
  passed. An exception leaves the loop with the vector as it is at that moment.
\<close>

fun recreate_shaders ::
  "ShaderInfo list \<Rightarrow> ShaderInfo list \<Rightarrow> ShaderSource \<Rightarrow> World \<Rightarrow> (exn + unit) \<times> ShaderSource \<times> World" where
  "recreate_shaders passed [] s w = (Inr (), s\<lparr>m_shaderinfo_cache := passed\<rparr>, w)"
| "recreate_shaders passed (i # rest) s w =
     (if name i \<noteq> [] then
        (case generateShader (name i) (input_constants i) (base_material i) s w of
           (Inl e, s', w') \<Rightarrow> (Inl e, s'\<lparr>m_shaderinfo_cache := passed @ i # rest\<rparr>, w')
         | (Inr info, s', w') \<Rightarrow> recreate_shaders (passed @ [info]) rest s' w')
      else recreate_shaders (passed @ [i]) rest s w)"

definition rebuildShaders :: "ShaderSource \<Rightarrow> World \<Rightarrow> (exn + unit) \<times> ShaderSource \<times> World" where
  "rebuildShaders s w =
     (if \<not> gpu_present w then (Inl (AssertionFailed ''gpu''), s, w)
      else
        case delete_materials (m_shaderinfo_cache s) w of
          (cache, w') \<Rightarrow>
            recreate_shaders [] cache (s\<lparr>m_shaderinfo_cache := cache\<rparr>)
              (w'\<lparr>infostream := infostream w' @
                    [''ShaderSource: recreating '' @ dec_nat (length cache) @ '' shaders'']\<rparr>))"

section \<open>Stating the properties\<close>

text \<open>The condition of the scan in \<^verbatim>\<open>getShaderIdDirect\<close>, for one record.\<close>

definition shader_matches :: "ShaderInfo \<Rightarrow> string \<Rightarrow> ShaderConstants \<Rightarrow> E_MATERIAL_TYPE \<Rightarrow> bool" where
  "shader_matches info shader_name input_const base_mat =
     (name info = shader_name \<and> base_material info = base_mat \<and>
      constants_eq (input_constants info) input_const)"

text \<open>What a record was generated from.\<close>

definition shader_key :: "ShaderInfo \<Rightarrow> string \<times> ShaderConstants \<times> E_MATERIAL_TYPE" where
  "shader_key info = (name info, input_constants info, base_material info)"

text \<open>
  \<open>evolves s t\<close>: the shader source \<open>s\<close> becomes \<open>t\<close> by calls of its member functions, by
  any threads, with any arguments and in any worlds, whether they return or throw. A
  reachable shader source is one that a constructor's result evolves to.
\<close>

inductive evolves :: "ShaderSource \<Rightarrow> ShaderSource \<Rightarrow> bool" where
  same: "evolves s s"
| getShader: "evolves s t \<Longrightarrow> getShader this_thread n c m t w = (r, t', w') \<Longrightarrow> evolves s t'"
| getShaderIdDirect:
    "evolves s t \<Longrightarrow> getShaderIdDirect this_thread n c m t w = (r, t', w') \<Longrightarrow> evolves s t'"
| insertSourceShader:
    "evolves s t \<Longrightarrow> insertSourceShader this_thread n f p t w = (u, t', w') \<Longrightarrow> evolves s t'"
| rebuildShaders: "evolves s t \<Longrightarrow> rebuildShaders t w = (u, t', w') \<Longrightarrow> evolves s t'"
| addShaderConstantSetter: "evolves s t \<Longrightarrow> evolves s (addShaderConstantSetter setter t)"
| addShaderUniformSetterFactory: "evolves s t \<Longrightarrow> evolves s (addShaderUniformSetterFactory factory t)"
| processQueue: "evolves s t \<Longrightarrow> processQueue t w = (t', w') \<Longrightarrow> evolves s t'"

definition reachable :: "ShaderSource \<Rightarrow> bool" where
  "reachable s = (\<exists>this_thread. evolves (ShaderSource_new this_thread) s)"

text \<open>The constants as a list of \<open>key=value\<close> pairs, each after a space.\<close>

fun constant_pairs :: "World \<Rightarrow> ShaderConstants \<Rightarrow> string" where
  "constant_pairs w [] = []"
| "constant_pairs w ((key, v) # rest) =
     '' '' @ key @ ''='' @ putConstant w False v @ constant_pairs w rest"

subsection \<open>Sample worlds, constants and shader sources\<close>

text \<open>
  A world with the null driver, no files and every setting off, and the same world
  with an OpenGL 3 driver whose compiler returns material 24.
\<close>

definition sample_world :: World where
  "sample_world =
     \<lparr>driverType = EDT_NULL, feature_ARB_GLSL = False, gpu_present = True, GL_RENDERER = [],
      gpu_calls = [], addHighLevelShaderMaterial = (\<lambda>calls call. - 1),
      DIR_DELIM = ''/'', path_share = ''/usr/share/luanti'',
      PathExists = (\<lambda>path. False), ReadFile = (\<lambda>path. None),
      setting_get = (\<lambda>key. []), getBool = (\<lambda>key. False), getS32 = (\<lambda>key. 0),
      getU16 = (\<lambda>key. 0), getFloat = (\<lambda>key. 0),
      g_shadername_to_path_cache = Map.empty,
      float_text = (\<lambda>showpoint f. ''0''), gettext = (\<lambda>msg. msg),
      fmtgettext = (\<lambda>msg arg. msg @ arg),
      errorstream = [], warningstream = [], infostream = []\<rparr>"

definition sample_gl_world :: World where
  "sample_gl_world =
     sample_world\<lparr>driverType := EDT_OPENGL3, feature_ARB_GLSL := True,
                  addHighLevelShaderMaterial := (\<lambda>calls call. 24)\<rparr>"

definition sample_constants :: ShaderConstants where
  "sample_constants = [(''DRAWTYPE'', IntConst 2), (''MATERIAL_TYPE'', IntConst 1)]"

definition other_constants :: ShaderConstants where
  "other_constants = sample_constants[1 := (fst (sample_constants ! 1), IntConst 5)]"

definition long_constants :: ShaderConstants where
  "long_constants =
     [(''DRAWTYPE'', IntConst 2), (''ENABLE_WAVING_LEAVES'', IntConst 1),
      (''MATERIAL_TYPE'', IntConst 1), (''Z'', IntConst 1)]"

text \<open>A constant whose value is a quiet NaN.\<close>

definition nan_constants :: ShaderConstants where
  "nan_constants = [(''SOFTSHADOWRADIUS'', FloatConst 0x7FC00000)]"

definition nan_shader :: ShaderInfo where
  "nan_shader = \<lparr>name = ''fancynode'', base_material = EMT_SOLID, material = EMT_SOLID,
                  input_constants = nan_constants\<rparr>"

text \<open>
  The shader source that thread 0 has constructed and asked, in \<open>sample_world\<close>, for
  \<open>fancynode\<close> with \<open>sample_constants\<close>; then also with \<open>other_constants\<close>; and the one it
  has asked for \<open>fancynode\<close> with a constant of value \<open>+0.0\<close>.
\<close>

definition sample_source :: ShaderSource where
  "sample_source =
     (ShaderSource_new 0)\<lparr>m_shaderinfo_cache :=
        [ShaderInfo_default,
         \<lparr>name = ''fancynode'', base_material = EMT_SOLID, material = EMT_SOLID,
          input_constants = sample_constants\<rparr>]\<rparr>"

definition grown_source :: ShaderSource where
  "grown_source =
     (ShaderSource_new 0)\<lparr>m_shaderinfo_cache :=
        [ShaderInfo_default,
         \<lparr>name = ''fancynode'', base_material = EMT_SOLID, material = EMT_SOLID,
          input_constants = sample_constants\<rparr>,
         \<lparr>name = ''fancynode'', base_material = EMT_SOLID, material = EMT_SOLID,
          input_constants = other_constants\<rparr>]\<rparr>"

definition zero_source :: ShaderSource where
  "zero_source =
     (ShaderSource_new 0)\<lparr>m_shaderinfo_cache :=
        [ShaderInfo_default,
         \<lparr>name = ''fancynode'', base_material = EMT_SOLID, material = EMT_SOLID,
          input_constants = [(''SOFTSHADOWRADIUS'', FloatConst 0)]\<rparr>]\<rparr>"

text \<open>
  Two constant setters that both define \<open>FOO\<close> and one that defines \<open>BAR\<close>, registered
  in this order after the constructor.
\<close>

definition first_setter :: IShaderConstantSetter where
  "first_setter w shader_name constants = assign constants ''FOO'' (IntConst 1)"

definition second_setter :: IShaderConstantSetter where
  "second_setter w shader_name constants = assign constants ''FOO'' (IntConst 2)"

definition bar_setter :: IShaderConstantSetter where
  "bar_setter w shader_name constants = assign constants ''BAR'' (IntConst 7)"

definition setter_source :: ShaderSource where
  "setter_source =
     addShaderConstantSetter bar_setter
       (addShaderConstantSetter second_setter
          (addShaderConstantSetter first_setter (ShaderSource_new 0)))"

section \<open>Properties\<close>

subsection \<open>Evaluation\<close>

lemmas EMT_defs = EMT_SOLID_def EMT_TRANSPARENT_ALPHA_CHANNEL_def EMT_TRANSPARENT_ALPHA_CHANNEL_REF_def
  EMT_TRANSPARENT_VERTEX_ALPHA_def EMT_ONETEXTURE_BLEND_def

lemma all_less_three: "(\<forall>i<3::nat. P i) \<longleftrightarrow> P 0 \<and> P 1 \<and> P 2"
  by (auto simp: less_Suc_eq numeral_3_eq_3 numeral_2_eq_2)

lemma dec_int_1: "dec_int 1 = ''1''"
  by code_simp

lemma dec_int_2: "dec_int 2 = ''2''"
  by code_simp

subsection \<open>Equality of constants\<close>

lemma float_eq_sym: "float_eq a b \<Longrightarrow> float_eq b a"
  by (auto simp: float_eq_def)

lemma float_eq_trans: "float_eq a b \<Longrightarrow> float_eq b c \<Longrightarrow> float_eq a c"
  by (auto simp: float_eq_def)

lemma variant_eq_sym: "variant_eq a b \<Longrightarrow> variant_eq b a"
  by (cases a; cases b) (auto intro: float_eq_sym)

lemma variant_eq_trans: "variant_eq a b \<Longrightarrow> variant_eq b c \<Longrightarrow> variant_eq a c"
  by (cases a; cases b; cases c) (auto intro: float_eq_trans)

lemma constants_eq_sym: "constants_eq xs ys \<Longrightarrow> constants_eq ys xs"
  by (induction xs ys rule: constants_eq.induct) (auto intro: variant_eq_sym)

lemma constants_eq_trans: "constants_eq xs ys \<Longrightarrow> constants_eq ys zs \<Longrightarrow> constants_eq xs zs"
proof (induction xs ys arbitrary: zs rule: constants_eq.induct)
  case (2 k v xs k' v' ys)
  then show ?case by (cases zs) (auto intro: variant_eq_trans)
qed auto

lemma constants_eq_nth:
  "constants_eq xs ys \<Longrightarrow> i < length xs \<Longrightarrow>
     fst (xs ! i) = fst (ys ! i) \<and> variant_eq (snd (xs ! i)) (snd (ys ! i))"
proof (induction xs ys arbitrary: i rule: constants_eq.induct)
  case (2 k v xs k' v' ys)
  then show ?case by (cases i) auto
qed auto

text \<open>
  The comparison is symmetric and transitive, but a map is equal to itself only when
  none of its \<^verbatim>\<open>float\<close> values is a NaN.
\<close>

lemma constants_eq_self:
  "constants_eq c c \<longleftrightarrow>
     (\<forall>kv\<in>set c. case snd kv of IntConst i \<Rightarrow> True | FloatConst f \<Rightarrow> \<not> float_isnan f)"
proof (induction c)
  case Nil
  then show ?case by simp
next
  case (Cons kv rest)
  obtain k v where kv: "kv = (k, v)" by (cases kv)
  then show ?case using Cons.IH
    by (cases v) (auto simp: float_eq_def)
qed

lemma sample_constants_eq: "constants_eq sample_constants sample_constants"
  by (simp add: sample_constants_def)

lemma nan_constants_unequal: "\<not> constants_eq nan_constants nan_constants"
  by (simp add: nan_constants_def float_eq_def float_isnan_def float_magnitude_def)

subsection \<open>The scan\<close>

lemma find_shader_None:
  "find_shader xs k n c m = None \<longleftrightarrow> (\<forall>j<length xs. \<not> shader_matches (xs ! j) n c m)"
proof (induction xs arbitrary: k)
  case Nil
  then show ?case by simp
next
  case (Cons x xs)
  show ?case
    by (auto simp: Cons.IH shader_matches_def nth_Cons split: nat.splits)
qed

lemma find_shader_Some:
  "find_shader xs k n c m = Some i \<longleftrightarrow>
     (k \<le> i \<and> i - k < length xs \<and> shader_matches (xs ! (i - k)) n c m \<and>
      (\<forall>j<i - k. \<not> shader_matches (xs ! j) n c m))"
proof (induction xs arbitrary: k)
  case Nil
  then show ?case by simp
next
  case (Cons x xs)
  show ?case
  proof (cases "shader_matches x n c m")
    case True
    then have "find_shader (x # xs) k n c m = Some k"
      by (simp add: shader_matches_def)
    moreover have "(k \<le> i \<and> i - k < length (x # xs) \<and> shader_matches ((x # xs) ! (i - k)) n c m \<and>
      (\<forall>j<i - k. \<not> shader_matches ((x # xs) ! j) n c m)) \<longleftrightarrow> i = k"
      using True by (cases "i - k") auto
    ultimately show ?thesis by auto
  next
    case False
    then have step: "find_shader (x # xs) k n c m = find_shader xs (Suc k) n c m"
      by (auto simp: shader_matches_def)
    show ?thesis
    proof
      assume "find_shader (x # xs) k n c m = Some i"
      then have h: "Suc k \<le> i" "i - Suc k < length xs" "shader_matches (xs ! (i - Suc k)) n c m"
        "\<forall>j<i - Suc k. \<not> shader_matches (xs ! j) n c m"
        using step Cons.IH [of "Suc k"] by auto
      then have e: "i - k = Suc (i - Suc k)" by arith
      show "k \<le> i \<and> i - k < length (x # xs) \<and> shader_matches ((x # xs) ! (i - k)) n c m \<and>
        (\<forall>j<i - k. \<not> shader_matches ((x # xs) ! j) n c m)"
        using h False by (auto simp: e nth_Cons less_Suc_eq_0_disj split: nat.splits)
    next
      assume a: "k \<le> i \<and> i - k < length (x # xs) \<and> shader_matches ((x # xs) ! (i - k)) n c m \<and>
        (\<forall>j<i - k. \<not> shader_matches ((x # xs) ! j) n c m)"
      with False have "i - k \<noteq> 0" by (cases "i - k") auto
      then have e: "i - k = Suc (i - Suc k)" and "Suc k \<le> i" by arith+
      with a have "i - Suc k < length xs" "shader_matches (xs ! (i - Suc k)) n c m" by auto
      moreover have "\<forall>j<i - Suc k. \<not> shader_matches (xs ! j) n c m"
      proof (intro allI impI)
        fix j assume "j < i - Suc k"
        then have "Suc j < i - k" using e by simp
        with a have "\<not> shader_matches ((x # xs) ! Suc j) n c m" by blast
        then show "\<not> shader_matches (xs ! j) n c m" by simp
      qed
      ultimately show "find_shader (x # xs) k n c m = Some i"
        using step Cons.IH [of "Suc k"] \<open>Suc k \<le> i\<close> by simp
    qed
  qed
qed

lemma shader_matches_cong:
  "constants_eq c c' \<Longrightarrow> shader_matches info n c' m = shader_matches info n c m"
  unfolding shader_matches_def
  using constants_eq_trans constants_eq_sym by blast

lemma find_shader_cong:
  "constants_eq c c' \<Longrightarrow> find_shader xs k n c' m = find_shader xs k n c m"
  by (induction xs arbitrary: k) (use shader_matches_cong in \<open>auto simp: shader_matches_def\<close>)

lemma find_shader_append:
  "find_shader (xs @ [info]) k n c m =
     (case find_shader xs k n c m of
        Some i \<Rightarrow> Some i
      | None \<Rightarrow> if shader_matches info n c m then Some (k + length xs) else None)"
  by (induction xs arbitrary: k) (auto simp: shader_matches_def split: option.splits)

lemma find_shader_ignores_material:
  "find_shader (map (\<lambda>info. info\<lparr>material := handle info\<rparr>) cache) k n c m = find_shader cache k n c m"
  by (induction cache arbitrary: k) auto

subsection \<open>What generating and rebuilding leave alone\<close>

lemma generateShader_frame:
  "generateShader n c m s w = (r, s', w') \<Longrightarrow> s' = s\<lparr>m_sourcecache := m_sourcecache s'\<rparr>"
  by (auto simp: generateShader_def generateShader_compile_def Let_def
      split: if_splits sum.splits prod.splits)

lemma generateShader_info:
  "generateShader n c m s w = (Inr info, s', w') \<Longrightarrow>
     name info = n \<and> input_constants info = c \<and> base_material info = m"
  by (auto simp: generateShader_def generateShader_compile_def Let_def
      split: if_splits sum.splits prod.splits)

lemma generateShader_cache:
  "generateShader n c m s w = (r, s', w') \<Longrightarrow>
     m_shaderinfo_cache s' = m_shaderinfo_cache s \<and> m_main_thread s' = m_main_thread s"
  using generateShader_frame [of n c m s w r s' w']
  by (metis ShaderSource.select_convs(1,3) ShaderSource.surjective ShaderSource.update_convs(2))

lemma getShaderIdDirect_cases:
  assumes "getShaderIdDirect this_thread n c m s w = (r, s', w')"
  shows "m_main_thread s' = m_main_thread s \<and>
         (m_shaderinfo_cache s' = m_shaderinfo_cache s \<or>
          (\<exists>info. n \<noteq> [] \<and> this_thread = m_main_thread s \<and>
             find_shader (m_shaderinfo_cache s) 0 n c m = None \<and>
             r = Inr (length (m_shaderinfo_cache s)) \<and>
             m_shaderinfo_cache s' = m_shaderinfo_cache s @ [info] \<and>
             name info = n \<and> input_constants info = c \<and> base_material info = m))"
proof (cases "n \<noteq> [] \<and> find_shader (m_shaderinfo_cache s) 0 n c m = None \<and> this_thread = m_main_thread s")
  case False
  with assms show ?thesis
    by (auto simp: getShaderIdDirect_def split: if_splits option.splits)
next
  case True
  obtain g t v where gen: "generateShader n c m s w = (g, t, v)"
    by (cases "generateShader n c m s w") auto
  note frame = generateShader_cache [OF gen]
  show ?thesis
  proof (cases g)
    case (Inl e)
    with assms True gen frame show ?thesis
      by (auto simp: getShaderIdDirect_def)
  next
    case (Inr info)
    with assms True gen frame generateShader_info [of n c m s w info t v] show ?thesis
      by (auto simp: getShaderIdDirect_def)
  qed
qed

lemma getShaderIdDirect_miss:
  assumes "n \<noteq> []" and "find_shader (m_shaderinfo_cache s) 0 n c m = None"
    and "getShaderIdDirect (m_main_thread s) n c m s w = (Inr i, s', w')"
  shows "\<exists>info. i = length (m_shaderinfo_cache s) \<and>
           m_shaderinfo_cache s' = m_shaderinfo_cache s @ [info] \<and>
           name info = n \<and> input_constants info = c \<and> base_material info = m"
proof -
  obtain g t v where gen: "generateShader n c m s w = (g, t, v)"
    by (cases "generateShader n c m s w") auto
  note frame = generateShader_cache [OF gen]
  show ?thesis
  proof (cases g)
    case (Inl e)
    with assms gen show ?thesis by (simp add: getShaderIdDirect_def)
  next
    case (Inr info)
    with assms gen frame generateShader_info [of n c m s w info t v] show ?thesis
      by (auto simp: getShaderIdDirect_def)
  qed
qed

lemma delete_materials_keys:
  "delete_materials xs w = (ys, w') \<Longrightarrow> map shader_key ys = map shader_key xs"
  by (induction xs arbitrary: w ys w')
    (auto simp: shader_key_def split: if_splits prod.splits)

lemma recreate_shaders_keys:
  "recreate_shaders passed todo s w = (r, s', w') \<Longrightarrow>
     map shader_key (m_shaderinfo_cache s') = map shader_key (passed @ todo) \<and>
     m_main_thread s' = m_main_thread s"
proof (induction todo arbitrary: passed s w)
  case Nil
  then show ?case by auto
next
  case (Cons i rest)
  show ?case
  proof (cases "name i = []")
    case True
    with Cons.prems have "recreate_shaders (passed @ [i]) rest s w = (r, s', w')" by simp
    from Cons.IH [OF this] show ?thesis by simp
  next
    case False
    obtain g t v where gen: "generateShader (name i) (input_constants i) (base_material i) s w = (g, t, v)"
      by (cases "generateShader (name i) (input_constants i) (base_material i) s w") auto
    note frame = generateShader_cache [OF gen]
    show ?thesis
    proof (cases g)
      case (Inl e)
      with Cons.prems False gen frame show ?thesis by auto
    next
      case (Inr info)
      with Cons.prems False gen have "recreate_shaders (passed @ [info]) rest t v = (r, s', w')"
        by simp
      from Cons.IH [OF this] frame generateShader_info [of _ _ _ s w info t v] gen Inr
      show ?thesis by (simp add: shader_key_def)
    qed
  qed
qed

lemma rebuildShaders_keys:
  assumes "rebuildShaders s w = (r, s', w')"
  shows "map shader_key (m_shaderinfo_cache s') = map shader_key (m_shaderinfo_cache s) \<and>
         m_main_thread s' = m_main_thread s"
proof (cases "gpu_present w")
  case False
  with assms show ?thesis by (simp add: rebuildShaders_def)
next
  case True
  obtain cache v where del: "delete_materials (m_shaderinfo_cache s) w = (cache, v)"
    by (cases "delete_materials (m_shaderinfo_cache s) w") auto
  with assms True
  have "recreate_shaders [] cache (s\<lparr>m_shaderinfo_cache := cache\<rparr>)
          (v\<lparr>infostream := infostream v @
               [''ShaderSource: recreating '' @ dec_nat (length cache) @ '' shaders'']\<rparr>) = (r, s', w')"
    by (simp add: rebuildShaders_def)
  from recreate_shaders_keys [OF this] delete_materials_keys [OF del]
  show ?thesis by simp
qed

lemma getShaderIdDirect_keys:
  assumes "getShaderIdDirect this_thread n c m s w = (r, s', w')"
  shows "(\<exists>ext. map shader_key (m_shaderinfo_cache s') = map shader_key (m_shaderinfo_cache s) @ ext) \<and>
         m_main_thread s' = m_main_thread s"
  using getShaderIdDirect_cases [OF assms] by auto

lemma getShader_keys:
  assumes "getShader this_thread n c m s w = (r, s', w')"
  shows "(\<exists>ext. map shader_key (m_shaderinfo_cache s') = map shader_key (m_shaderinfo_cache s) @ ext) \<and>
         m_main_thread s' = m_main_thread s"
proof (cases "this_thread = m_main_thread s")
  case True
  with assms getShaderIdDirect_keys show ?thesis by (simp add: getShader_def)
next
  case False
  with assms show ?thesis by (auto simp: getShader_def)
qed

lemma evolves_keys:
  "evolves s t \<Longrightarrow>
     (\<exists>ext. map shader_key (m_shaderinfo_cache t) = map shader_key (m_shaderinfo_cache s) @ ext) \<and>
     m_main_thread t = m_main_thread s"
proof (induction rule: evolves.induct)
  case (same s)
  then show ?case by simp
next
  case (getShader s t this_thread n c m w r t' w')
  from getShader_keys [OF getShader.hyps(2)] getShader.IH show ?case by auto
next
  case (getShaderIdDirect s t this_thread n c m w r t' w')
  from getShaderIdDirect_keys [OF getShaderIdDirect.hyps(2)] getShaderIdDirect.IH show ?case by auto
next
  case (insertSourceShader s t this_thread n f p w u t' w')
  then show ?case by (auto simp: insertSourceShader_def split: if_splits prod.splits)
next
  case (rebuildShaders s t w u t' w')
  from rebuildShaders_keys [OF rebuildShaders.hyps(2)] rebuildShaders.IH show ?case by auto
next
  case (addShaderConstantSetter s t setter)
  then show ?case by (simp add: addShaderConstantSetter_def)
next
  case (addShaderUniformSetterFactory s t factory)
  then show ?case by (simp add: addShaderUniformSetterFactory_def)
next
  case (processQueue s t w t' w')
  then show ?case by (simp add: processQueue_def)
qed

lemma evolves_nth:
  assumes "evolves s t" and "i < length (m_shaderinfo_cache s)"
  shows "i < length (m_shaderinfo_cache t) \<and>
         shader_key (m_shaderinfo_cache t ! i) = shader_key (m_shaderinfo_cache s ! i)"
proof -
  from evolves_keys [OF assms(1)] obtain ext
    where e: "map shader_key (m_shaderinfo_cache t) = map shader_key (m_shaderinfo_cache s) @ ext"
    by blast
  then have "length (map shader_key (m_shaderinfo_cache t)) =
             length (map shader_key (m_shaderinfo_cache s) @ ext)" by simp
  with assms(2) have l: "i < length (m_shaderinfo_cache t)" by simp
  from e have "map shader_key (m_shaderinfo_cache t) ! i = (map shader_key (m_shaderinfo_cache s) @ ext) ! i"
    by simp
  with l assms(2) show ?thesis by (simp add: nth_append)
qed

subsection \<open>The sample shader sources\<close>

lemma sample_source_main_thread: "m_main_thread sample_source = 0"
  by (simp add: sample_source_def ShaderSource_new_def)

lemma sample_source_cache:
  "m_shaderinfo_cache sample_source =
     [ShaderInfo_default,
      \<lparr>name = ''fancynode'', base_material = EMT_SOLID, material = EMT_SOLID,
       input_constants = sample_constants\<rparr>]"
  by (simp add: sample_source_def ShaderSource_new_def)

lemma sample_source_requested:
  "getShader 0 ''fancynode'' sample_constants EMT_SOLID (ShaderSource_new 0) sample_world =
     (Inr 1, sample_source, sample_world)"
  by (simp add: getShader_def getShaderIdDirect_def generateShader_def sample_source_def
      ShaderSource_new_def ShaderInfo_default_def sample_world_def
      EMT_SOLID_def EMT_TRANSPARENT_VERTEX_ALPHA_def EMT_ONETEXTURE_BLEND_def)

lemma sample_source_requested_direct:
  "getShaderIdDirect 0 ''fancynode'' sample_constants EMT_SOLID (ShaderSource_new 0) sample_world =
     (Inr 1, sample_source, sample_world)"
  by (simp add: getShaderIdDirect_def generateShader_def sample_source_def
      ShaderSource_new_def ShaderInfo_default_def sample_world_def EMT_defs)

lemma grown_source_requested:
  "getShaderIdDirect 0 ''fancynode'' other_constants EMT_SOLID sample_source sample_world =
     (Inr 2, grown_source, sample_world)"
  by (simp add: getShaderIdDirect_def generateShader_def sample_source_def grown_source_def
      other_constants_def sample_constants_def
      ShaderSource_new_def ShaderInfo_default_def sample_world_def EMT_defs)

lemma sample_source_rebuilt:
  "m_shaderinfo_cache (fst (snd (rebuildShaders sample_source sample_gl_world))) =
     [ShaderInfo_default,
      \<lparr>name = ''fancynode'', base_material = EMT_SOLID, material = 24,
       input_constants = sample_constants\<rparr>]"
  by code_simp

lemma sample_source_reachable: "reachable sample_source"
  unfolding reachable_def
  using evolves.getShader [OF evolves.same sample_source_requested] by blast


subsection \<open>Asking twice\<close>

text \<open>On the main thread the public \<open>getShader\<close> is \<open>getShaderIdDirect\<close>.\<close>

lemma getShader_main_thread:
  "getShader (m_main_thread s) shader_name input_const base_mat s w =
     getShaderIdDirect (m_main_thread s) shader_name input_const base_mat s w"
  by (simp add: getShader_def)

text \<open>
  C1, as the code has it. Let the main thread ask for a shader with a name and have
  an id returned. When it asks again, with constants that compare equal to the first
  ones under \<^verbatim>\<open>operator==\<close> of the map (the same keys, the same alternative for each
  key, values equal under \<^verbatim>\<open>==\<close>), it is returned the same id, and the shader source
  and the world are as before the second call: nothing is generated, the vector does
  not grow. This holds through \<open>getShaderIdDirect\<close> and through \<open>getShader\<close>. By
  \<open>constants_eq_self\<close> the same constants may be passed again when they hold no NaN.
\<close>

theorem request_twice_same_id:
  assumes named: "shader_name \<noteq> []"
    and equal: "constants_eq input_const input_const'"
    and first: "getShaderIdDirect (m_main_thread s) shader_name input_const base_mat s w = (Inr i, s', w')"
  shows "getShaderIdDirect (m_main_thread s') shader_name input_const' base_mat s' w'' = (Inr i, s', w'') \<and>
         getShader (m_main_thread s') shader_name input_const' base_mat s' w'' = (Inr i, s', w'')"
proof -
  have found: "find_shader (m_shaderinfo_cache s') 0 shader_name input_const base_mat = Some i"
  proof (cases "find_shader (m_shaderinfo_cache s) 0 shader_name input_const base_mat")
    case (Some k)
    with first named show ?thesis by (simp add: getShaderIdDirect_def)
  next
    case None
    from getShaderIdDirect_miss [OF named None first]
    obtain info where grown: "m_shaderinfo_cache s' = m_shaderinfo_cache s @ [info]"
      and i: "i = length (m_shaderinfo_cache s)"
      and info: "name info = shader_name" "input_constants info = input_const"
        "base_material info = base_mat"
      by blast
    from equal have "constants_eq input_const input_const"
      using constants_eq_sym constants_eq_trans by blast
    with info have "shader_matches info shader_name input_const base_mat"
      by (simp add: shader_matches_def)
    with None grown i show ?thesis by (simp add: find_shader_append)
  qed
  then have "find_shader (m_shaderinfo_cache s') 0 shader_name input_const' base_mat = Some i"
    by (simp add: find_shader_cong [OF equal])
  with named show ?thesis by (simp add: getShaderIdDirect_def getShader_def)
qed

theorem request_twice_same_id_witness:
  "''fancynode'' \<noteq> [] \<and> constants_eq sample_constants sample_constants \<and>
   getShaderIdDirect (m_main_thread (ShaderSource_new 0)) ''fancynode'' sample_constants EMT_SOLID
     (ShaderSource_new 0) sample_world = (Inr 1, sample_source, sample_world) \<and>
   getShaderIdDirect (m_main_thread sample_source) ''fancynode'' sample_constants EMT_SOLID
     sample_source sample_world = (Inr 1, sample_source, sample_world) \<and>
   getShader (m_main_thread sample_source) ''fancynode'' sample_constants EMT_SOLID
     sample_source sample_world = (Inr 1, sample_source, sample_world)"
proof -
  have named: "''fancynode'' \<noteq> []" by simp
  have first: "getShaderIdDirect (m_main_thread (ShaderSource_new 0)) ''fancynode'' sample_constants
      EMT_SOLID (ShaderSource_new 0) sample_world = (Inr 1, sample_source, sample_world)"
    using sample_source_requested_direct by (simp add: ShaderSource_new_def)
  from request_twice_same_id [OF named sample_constants_eq first, of sample_world]
    named sample_constants_eq first
  show ?thesis by blast
qed

text \<open>
  Constants that hold a NaN \<^verbatim>\<open>float\<close> do not compare equal to themselves: asked twice
  for the same name, the same such constants and the same base material, the main
  thread is returned id 1 and then id 2, and the vector has grown by a second record.
\<close>

theorem request_twice_same_id_counterexample:
  "getShaderIdDirect 0 ''fancynode'' nan_constants EMT_SOLID (ShaderSource_new 0) sample_world =
     (Inr 1, (ShaderSource_new 0)\<lparr>m_shaderinfo_cache := [ShaderInfo_default, nan_shader]\<rparr>,
      sample_world) \<and>
   getShaderIdDirect 0 ''fancynode'' nan_constants EMT_SOLID
     ((ShaderSource_new 0)\<lparr>m_shaderinfo_cache := [ShaderInfo_default, nan_shader]\<rparr>) sample_world =
     (Inr 2, (ShaderSource_new 0)\<lparr>m_shaderinfo_cache := [ShaderInfo_default, nan_shader, nan_shader]\<rparr>,
      sample_world)"
  using nan_constants_unequal
  by (simp add: getShaderIdDirect_def generateShader_def nan_shader_def
      ShaderSource_new_def ShaderInfo_default_def sample_world_def EMT_defs)

subsection \<open>Asking with another value of a constant\<close>

text \<open>
  The key is the whole triple: when two requests with names, made by the main thread,
  are returned the same id, whatever was called between them, they have the same
  name and the same base material, and their constants compare equal.
\<close>

lemma same_id_same_key:
  assumes named: "n \<noteq> []" and named': "n' \<noteq> []"
    and first: "getShaderIdDirect (m_main_thread s) n c m s w = (Inr i, s', w')"
    and later: "evolves s' t"
    and second: "getShaderIdDirect (m_main_thread t) n' c' m' t u = (Inr j, t', u')"
    and same: "i = j"
  shows "n = n' \<and> m = m' \<and> constants_eq c c'"
proof -
  have stored: "i < length (m_shaderinfo_cache s') \<and>
      name (m_shaderinfo_cache s' ! i) = n \<and> base_material (m_shaderinfo_cache s' ! i) = m \<and>
      (constants_eq (input_constants (m_shaderinfo_cache s' ! i)) c \<or>
       input_constants (m_shaderinfo_cache s' ! i) = c)"
  proof (cases "find_shader (m_shaderinfo_cache s) 0 n c m")
    case (Some h)
    with first named have "h = i" "s' = s" by (simp_all add: getShaderIdDirect_def)
    with Some show ?thesis by (simp add: find_shader_Some shader_matches_def)
  next
    case None
    from getShaderIdDirect_miss [OF named None first] show ?thesis by auto
  qed
  then have i: "i < length (m_shaderinfo_cache s')" by simp
  from evolves_nth [OF later i]
  have kept: "i < length (m_shaderinfo_cache t)"
    "name (m_shaderinfo_cache t ! i) = name (m_shaderinfo_cache s' ! i)"
    "base_material (m_shaderinfo_cache t ! i) = base_material (m_shaderinfo_cache s' ! i)"
    "input_constants (m_shaderinfo_cache t ! i) = input_constants (m_shaderinfo_cache s' ! i)"
    by (simp_all add: shader_key_def)
  have hit: "shader_matches (m_shaderinfo_cache t ! i) n' c' m'"
  proof (cases "find_shader (m_shaderinfo_cache t) 0 n' c' m'")
    case (Some h)
    with second named' have "h = j" by (simp add: getShaderIdDirect_def)
    with Some same show ?thesis by (simp add: find_shader_Some)
  next
    case None
    from getShaderIdDirect_miss [OF named' None second] same kept(1) show ?thesis by simp
  qed
  from hit kept stored have "n = n'" "m = m'" by (simp_all add: shader_matches_def)
  moreover from stored have "constants_eq c c'"
  proof (elim conjE disjE)
    assume "constants_eq (input_constants (m_shaderinfo_cache s' ! i)) c"
    with hit kept(4) show ?thesis
      unfolding shader_matches_def using constants_eq_sym constants_eq_trans by metis
  next
    assume "input_constants (m_shaderinfo_cache s' ! i) = c"
    with hit kept(4) show ?thesis by (simp add: shader_matches_def)
  qed
  ultimately show ?thesis by simp
qed

text \<open>
  C2, as the code has it. Let the main thread ask for a shader with a name and be
  returned an id, and let it ask later, after any further calls of member functions,
  with the same name and base material and with constants that differ from the first
  ones in the value of one key, the two values comparing unequal under \<^verbatim>\<open>operator==\<close>
  of the variant. If an id is returned then, it is another id.
\<close>

theorem differing_constant_distinct_ids:
  assumes named: "shader_name \<noteq> []"
    and k: "k < length input_const"
    and differ: "input_const' = input_const[k := (fst (input_const ! k), x)]"
      "\<not> variant_eq (snd (input_const ! k)) x"
    and first: "getShaderIdDirect (m_main_thread s) shader_name input_const base_mat s w = (Inr i, s', w')"
    and later: "evolves s' t"
    and second: "getShaderIdDirect (m_main_thread t) shader_name input_const' base_mat t u = (Inr j, t', u')"
  shows "i \<noteq> j"
proof
  assume "i = j"
  from same_id_same_key [OF named named first later second this]
  have "constants_eq input_const input_const'" by simp
  from constants_eq_nth [OF this k] differ k show False by simp
qed

theorem differing_constant_distinct_ids_witness:
  "''fancynode'' \<noteq> [] \<and> 1 < length sample_constants \<and>
   \<not> variant_eq (snd (sample_constants ! 1)) (IntConst 5) \<and>
   getShaderIdDirect (m_main_thread (ShaderSource_new 0)) ''fancynode'' sample_constants EMT_SOLID
     (ShaderSource_new 0) sample_world = (Inr 1, sample_source, sample_world) \<and>
   evolves sample_source sample_source \<and>
   getShaderIdDirect (m_main_thread sample_source) ''fancynode'' other_constants EMT_SOLID
     sample_source sample_world = (Inr 2, grown_source, sample_world) \<and>
   (1::nat) \<noteq> 2"
proof -
  have named: "''fancynode'' \<noteq> []" by simp
  have k: "1 < length sample_constants" by (simp add: sample_constants_def)
  have differ: "\<not> variant_eq (snd (sample_constants ! 1)) (IntConst 5)"
    by (simp add: sample_constants_def)
  have first: "getShaderIdDirect (m_main_thread (ShaderSource_new 0)) ''fancynode'' sample_constants
      EMT_SOLID (ShaderSource_new 0) sample_world = (Inr 1, sample_source, sample_world)"
    using sample_source_requested_direct by (simp add: ShaderSource_new_def)
  have later: "evolves sample_source sample_source" by (rule evolves.same)
  have second: "getShaderIdDirect (m_main_thread sample_source) ''fancynode'' other_constants
      EMT_SOLID sample_source sample_world = (Inr 2, grown_source, sample_world)"
    using grown_source_requested by (simp add: sample_source_main_thread)
  from differing_constant_distinct_ids [OF named k other_constants_def differ first later second]
    named k differ first later second
  show ?thesis by blast
qed

text \<open>
  Without a name both requests are answered with id 0, whatever the constants; and
  the values \<open>+0.0\<close> and \<open>-0.0\<close> of a \<^verbatim>\<open>float\<close> constant compare equal, so that the
  second request is answered with the id of the first.
\<close>

theorem differing_constant_distinct_ids_counterexample:
  "getShaderIdDirect 0 [] [(''DRAWTYPE'', IntConst 2)] EMT_SOLID sample_source sample_world =
     (Inr 0, sample_source,
      sample_world\<lparr>infostream := [''getShaderIdDirect(): name is empty'']\<rparr>) \<and>
   getShaderIdDirect 0 [] [(''DRAWTYPE'', IntConst 3)] EMT_SOLID sample_source
      (sample_world\<lparr>infostream := [''getShaderIdDirect(): name is empty'']\<rparr>) =
     (Inr 0, sample_source,
      sample_world\<lparr>infostream := [''getShaderIdDirect(): name is empty'',
                                   ''getShaderIdDirect(): name is empty'']\<rparr>) \<and>
   getShaderIdDirect 0 ''fancynode'' [(''SOFTSHADOWRADIUS'', FloatConst 0)] EMT_SOLID
      (ShaderSource_new 0) sample_world = (Inr 1, zero_source, sample_world) \<and>
   getShaderIdDirect 0 ''fancynode'' [(''SOFTSHADOWRADIUS'', FloatConst 0x80000000)] EMT_SOLID
      zero_source sample_world = (Inr 1, zero_source, sample_world)"
  by (simp add: getShaderIdDirect_def generateShader_def zero_source_def sample_source_def
      ShaderSource_new_def ShaderInfo_default_def sample_world_def EMT_defs
      float_eq_def float_isnan_def float_iszero_def float_magnitude_def)

subsection \<open>Requests from another thread\<close>

text \<open>
  C3. \<open>getShader\<close> called by a thread other than the main thread returns id 0 and
  writes one line to the error stream; the shader source is returned as it was, so
  the vector keeps its length, nothing is generated and nothing is queued.
\<close>

theorem getShader_other_thread:
  assumes "this_thread \<noteq> m_main_thread s"
  shows "getShader this_thread shader_name input_const base_mat s w =
           (Inr 0, s, w\<lparr>errorstream := errorstream w @
              [''ShaderSource::getShader(): getting from other thread not implemented'']\<rparr>)"
  using assms by (simp add: getShader_def)

theorem getShader_other_thread_witness:
  "1 \<noteq> m_main_thread sample_source \<and>
   getShader 1 ''fancynode'' sample_constants EMT_SOLID sample_source sample_world =
     (Inr 0, sample_source, sample_world\<lparr>errorstream := errorstream sample_world @
        [''ShaderSource::getShader(): getting from other thread not implemented'']\<rparr>)"
proof -
  have other: "1 \<noteq> m_main_thread sample_source"
    by (simp add: sample_source_main_thread)
  from getShader_other_thread [OF other] other show ?thesis by blast
qed

subsection \<open>Rebuilding\<close>

text \<open>
  C4. After \<open>rebuildShaders\<close>, whether it returns or throws, the vector has the length
  it had, and every id that was valid before is looked up to a record with the same
  name, the same input constants and the same base material as before: the record is
  the one from before with, at most, another material. No id is renumbered or reused.
\<close>

theorem rebuildShaders_keeps_ids:
  assumes "rebuildShaders s w = (r, s', w')"
  shows "length (m_shaderinfo_cache s') = length (m_shaderinfo_cache s) \<and>
         (\<forall>shader_id<length (m_shaderinfo_cache s).
            name (getShaderInfo s' shader_id) = name (getShaderInfo s shader_id) \<and>
            input_constants (getShaderInfo s' shader_id) = input_constants (getShaderInfo s shader_id) \<and>
            base_material (getShaderInfo s' shader_id) = base_material (getShaderInfo s shader_id) \<and>
            getShaderInfo s' shader_id =
              (getShaderInfo s shader_id)\<lparr>material := material (getShaderInfo s' shader_id)\<rparr>)"
proof -
  from rebuildShaders_keys [OF assms]
  have keys: "map shader_key (m_shaderinfo_cache s') = map shader_key (m_shaderinfo_cache s)"
    by simp
  then have len: "length (m_shaderinfo_cache s') = length (m_shaderinfo_cache s)"
    using map_eq_imp_length_eq by blast
  have "shader_key (m_shaderinfo_cache s' ! i) = shader_key (m_shaderinfo_cache s ! i)"
    if "i < length (m_shaderinfo_cache s)" for i
    using keys that len by (metis nth_map)
  with len show ?thesis
    by (auto simp: getShaderInfo_def shader_key_def)
qed

theorem rebuildShaders_keeps_ids_witness:
  "1 < length (m_shaderinfo_cache sample_source) \<and>
   length (m_shaderinfo_cache (fst (snd (rebuildShaders sample_source sample_gl_world)))) =
     length (m_shaderinfo_cache sample_source) \<and>
   name (getShaderInfo (fst (snd (rebuildShaders sample_source sample_gl_world))) 1) =
     name (getShaderInfo sample_source 1) \<and>
   input_constants (getShaderInfo (fst (snd (rebuildShaders sample_source sample_gl_world))) 1) =
     input_constants (getShaderInfo sample_source 1) \<and>
   base_material (getShaderInfo (fst (snd (rebuildShaders sample_source sample_gl_world))) 1) =
     base_material (getShaderInfo sample_source 1) \<and>
   material (getShaderInfo sample_source 1) = EMT_SOLID \<and>
   material (getShaderInfo (fst (snd (rebuildShaders sample_source sample_gl_world))) 1) = 24"
proof -
  have valid: "1 < length (m_shaderinfo_cache sample_source)"
    by (simp add: sample_source_cache)
  have rebuilt: "rebuildShaders sample_source sample_gl_world =
      (fst (rebuildShaders sample_source sample_gl_world),
       fst (snd (rebuildShaders sample_source sample_gl_world)),
       snd (snd (rebuildShaders sample_source sample_gl_world)))"
    by simp
  have before: "material (getShaderInfo sample_source 1) = EMT_SOLID"
    by (simp add: getShaderInfo_def sample_source_cache)
  have after: "material (getShaderInfo (fst (snd (rebuildShaders sample_source sample_gl_world))) 1) = 24"
    by (simp add: getShaderInfo_def sample_source_rebuilt)
  from rebuildShaders_keeps_ids [OF rebuilt] valid before after show ?thesis by blast
qed

subsection \<open>Looking a shader up\<close>

text \<open>
  C5. For every id at or beyond the size of the vector, \<open>getShaderInfo\<close> returns the
  default record (empty name, material and base material \<^verbatim>\<open>EMT_SOLID\<close>), whatever the
  state of the shader source; it has no failing branch.
\<close>

theorem getShaderInfo_out_of_range:
  "length (m_shaderinfo_cache s) \<le> shader_id \<Longrightarrow>
     getShaderInfo s shader_id = ShaderInfo_default \<and>
     name (getShaderInfo s shader_id) = [] \<and>
     base_material (getShaderInfo s shader_id) = EMT_SOLID \<and>
     material (getShaderInfo s shader_id) = EMT_SOLID"
  by (simp add: getShaderInfo_def ShaderInfo_default_def)

theorem getShaderInfo_out_of_range_witness:
  "length (m_shaderinfo_cache sample_source) \<le> 2 \<and>
   getShaderInfo sample_source 2 = ShaderInfo_default \<and>
   name (getShaderInfo sample_source 2) = []"
proof -
  have beyond: "length (m_shaderinfo_cache sample_source) \<le> 2"
    by (simp add: sample_source_cache)
  from getShaderInfo_out_of_range [OF beyond] beyond show ?thesis by blast
qed

subsection \<open>The record at index 0\<close>

lemma reachable_sentinel:
  assumes "reachable s"
  shows "m_shaderinfo_cache s \<noteq> [] \<and> name (m_shaderinfo_cache s ! 0) = []"
proof -
  from assms obtain this_thread where ev: "evolves (ShaderSource_new this_thread) s"
    by (auto simp: reachable_def)
  have "0 < length (m_shaderinfo_cache (ShaderSource_new this_thread))"
    by (simp add: ShaderSource_new_def)
  from evolves_nth [OF ev this] show ?thesis
    by (auto simp: shader_key_def ShaderSource_new_def ShaderInfo_default_def)
qed

text \<open>
  C6. In every reachable shader source (the constructor's result, and what it becomes
  by any calls of the member functions) the record at index 0 exists and has an empty
  name, and \<open>getShaderInfo\<close> returns it for id 0. The scan never answers a request with
  index 0: a request with a name does not match the record, and when the main thread
  is returned an id for it, the id is not 0; a request without a name is answered
  with id 0 before any scan, whatever the vector holds.
\<close>

theorem sentinel_invariant:
  assumes "reachable s"
  shows "m_shaderinfo_cache s \<noteq> [] \<and>
         name (m_shaderinfo_cache s ! 0) = [] \<and>
         getShaderInfo s 0 = m_shaderinfo_cache s ! 0 \<and>
         name (getShaderInfo s 0) = [] \<and>
         (\<forall>shader_name input_const base_mat.
            shader_name \<noteq> [] \<longrightarrow>
            find_shader (m_shaderinfo_cache s) 0 shader_name input_const base_mat \<noteq> Some 0) \<and>
         (\<forall>shader_name input_const base_mat w i s' w'.
            shader_name \<noteq> [] \<and>
            getShaderIdDirect (m_main_thread s) shader_name input_const base_mat s w = (Inr i, s', w')
            \<longrightarrow> i \<noteq> 0) \<and>
         (\<forall>this_thread input_const base_mat w.
            getShaderIdDirect this_thread [] input_const base_mat s w =
              (Inr 0, s, w\<lparr>infostream := infostream w @ [''getShaderIdDirect(): name is empty'']\<rparr>))"
proof -
  note inv = reachable_sentinel [OF assms]
  have scan: "find_shader (m_shaderinfo_cache s) 0 n c m \<noteq> Some 0" if "n \<noteq> []" for n c m
    using inv that by (auto simp: find_shader_Some shader_matches_def)
  have fresh: "i \<noteq> 0"
    if "n \<noteq> []" and "getShaderIdDirect (m_main_thread s) n c m s w = (Inr i, s', w')"
    for n c m w i s' w'
  proof (cases "find_shader (m_shaderinfo_cache s) 0 n c m")
    case (Some h)
    with that scan [of n c m] show ?thesis by (auto simp: getShaderIdDirect_def)
  next
    case None
    from getShaderIdDirect_miss [OF that(1) None that(2)] inv show ?thesis by auto
  qed
  from inv scan fresh show ?thesis
    by (auto simp: getShaderInfo_def getShaderIdDirect_def)
qed

theorem sentinel_invariant_witness:
  "reachable sample_source \<and>
   name (m_shaderinfo_cache sample_source ! 0) = [] \<and>
   name (getShaderInfo sample_source 0) = [] \<and>
   find_shader (m_shaderinfo_cache sample_source) 0 ''fancynode'' sample_constants EMT_SOLID \<noteq> Some 0 \<and>
   getShaderIdDirect (m_main_thread sample_source) ''fancynode'' other_constants EMT_SOLID
     sample_source sample_world = (Inr 2, grown_source, sample_world) \<and>
   getShaderIdDirect 0 [] sample_constants EMT_SOLID sample_source sample_world =
     (Inr 0, sample_source,
      sample_world\<lparr>infostream := infostream sample_world @ [''getShaderIdDirect(): name is empty'']\<rparr>)"
proof -
  have named: "''fancynode'' \<noteq> []" by simp
  have asked: "getShaderIdDirect (m_main_thread sample_source) ''fancynode'' other_constants
      EMT_SOLID sample_source sample_world = (Inr 2, grown_source, sample_world)"
    using grown_source_requested by (simp add: sample_source_main_thread)
  from sentinel_invariant [OF sample_source_reachable] named asked sample_source_reachable
  show ?thesis by blast
qed

subsection \<open>Drivers without shaders\<close>

text \<open>
  C7. For a base material that passes the assertion at the head of \<open>generateShader\<close>
  (fixed pipeline materials are not valid there): with the null driver, generation
  returns the record whose material is the base material and leaves the shader source
  and the world as they are, so the compiler is not called; with any other driver
  that does not report GLSL, or has no GPU programming services, it throws the
  \<^verbatim>\<open>ShaderException\<close> "GLSL is not supported by the driver", again without a call.
\<close>

theorem generateShader_without_shader_support:
  assumes "base_mat \<noteq> EMT_TRANSPARENT_VERTEX_ALPHA" and "base_mat \<noteq> EMT_ONETEXTURE_BLEND"
  shows "(driverType w = EDT_NULL \<longrightarrow>
            generateShader shader_name input_const base_mat s w =
              (Inr \<lparr>name = shader_name, base_material = base_mat, material = base_mat,
                    input_constants = input_const\<rparr>, s, w)) \<and>
         (driverType w \<noteq> EDT_NULL \<and> (\<not> feature_ARB_GLSL w \<or> \<not> gpu_present w) \<longrightarrow>
            generateShader shader_name input_const base_mat s w =
              (Inl (ShaderException (gettext w ''GLSL is not supported by the driver'')), s, w))"
  using assms by (simp add: generateShader_def)

theorem generateShader_without_shader_support_witness:
  "EMT_SOLID \<noteq> EMT_TRANSPARENT_VERTEX_ALPHA \<and> EMT_SOLID \<noteq> EMT_ONETEXTURE_BLEND \<and>
   driverType sample_world = EDT_NULL \<and>
   generateShader ''fancynode'' sample_constants EMT_SOLID sample_source sample_world =
     (Inr \<lparr>name = ''fancynode'', base_material = EMT_SOLID, material = EMT_SOLID,
           input_constants = sample_constants\<rparr>, sample_source, sample_world) \<and>
   driverType (sample_world\<lparr>driverType := EDT_OPENGL\<rparr>) \<noteq> EDT_NULL \<and>
   \<not> feature_ARB_GLSL (sample_world\<lparr>driverType := EDT_OPENGL\<rparr>) \<and>
   generateShader ''fancynode'' sample_constants EMT_SOLID sample_source
       (sample_world\<lparr>driverType := EDT_OPENGL\<rparr>) =
     (Inl (ShaderException
        (gettext (sample_world\<lparr>driverType := EDT_OPENGL\<rparr>) ''GLSL is not supported by the driver'')),
      sample_source, sample_world\<lparr>driverType := EDT_OPENGL\<rparr>)"
proof -
  have a: "EMT_SOLID \<noteq> EMT_TRANSPARENT_VERTEX_ALPHA" and b: "EMT_SOLID \<noteq> EMT_ONETEXTURE_BLEND"
    by (simp_all add: EMT_defs)
  have null: "driverType sample_world = EDT_NULL" by (simp add: sample_world_def)
  have gl: "driverType (sample_world\<lparr>driverType := EDT_OPENGL\<rparr>) \<noteq> EDT_NULL"
    "\<not> feature_ARB_GLSL (sample_world\<lparr>driverType := EDT_OPENGL\<rparr>)"
    by (simp_all add: sample_world_def)
  from generateShader_without_shader_support [OF a b, of sample_world "''fancynode''" sample_constants sample_source]
    generateShader_without_shader_support [OF a b, of "sample_world\<lparr>driverType := EDT_OPENGL\<rparr>"
      "''fancynode''" sample_constants sample_source]
    a b null gl
  show ?thesis by blast
qed

subsection \<open>Constant setters\<close>

lemma map_of_assign:
  "map_of (assign c key v) k = (if k = key then Some v else map_of c k)"
  by (induction c key v rule: assign.induct) auto

lemma run_setters_append:
  "run_setters (xs @ ys) w n c = run_setters ys w n (run_setters xs w n c)"
  by (induction xs arbitrary: c) auto

lemma run_setters_untouched:
  "(\<forall>setter\<in>set ss. \<forall>c. map_of (setter w n c) key = map_of c key) \<Longrightarrow>
     map_of (run_setters ss w n c) key = map_of c key"
  by (induction ss arbitrary: c) auto

lemma emit_constants_line:
  "emit_constants w c = Inr macros \<Longrightarrow> (key, v) \<in> set c \<Longrightarrow>
     \<exists>pre post. macros = pre @ ''#define '' @ key @ '' '' @ putConstant w True v @ ''\<newline>'' @ post"
proof (induction c arbitrary: macros)
  case Nil
  then show ?case by simp
next
  case (Cons kv rest)
  obtain k x where kv: "kv = (k, x)" by (cases kv)
  from Cons.prems(1) obtain tail where tail: "emit_constants w rest = Inr tail"
    and macros: "macros = ''#define '' @ k @ '' '' @ putConstant w True x @ ''\<newline>'' @ tail"
    by (auto simp: kv split: if_splits sum.splits)
  show ?case
  proof (cases "(key, v) = kv")
    case True
    with macros kv have "macros = [] @ ''#define '' @ key @ '' '' @ putConstant w True v @ ''\<newline>'' @ tail"
      by simp
    then show ?thesis by blast
  next
    case False
    with Cons.prems(2) have "(key, v) \<in> set rest" by simp
    from Cons.IH [OF tail this] obtain pre post
      where "tail = pre @ ''#define '' @ key @ '' '' @ putConstant w True v @ ''\<newline>'' @ post"
      by blast
    with macros have "macros = (''#define '' @ k @ '' '' @ putConstant w True x @ ''\<newline>'' @ pre)
        @ ''#define '' @ key @ '' '' @ putConstant w True v @ ''\<newline>'' @ post"
      by simp
    then show ?thesis by blast
  qed
qed

lemma getShaderPath_gpu_calls:
  "getShaderPath n f w = (p, w') \<Longrightarrow> gpu_calls w' = gpu_calls w"
  by (auto simp: getShaderPath_def Let_def split: option.splits)

lemma getOrLoad_gpu_calls:
  "SourceShaderCache_getOrLoad n f progs w = (p, progs', w') \<Longrightarrow> gpu_calls w' = gpu_calls w"
  by (auto simp: SourceShaderCache_getOrLoad_def Let_def
      split: option.splits prod.splits if_splits dest: getShaderPath_gpu_calls)

lemma generateShader_compile_call:
  assumes emit: "emit_constants w
             (generated_constants (m_constant_setters s) w (name info) (input_constants info)
                (base_material info)) = Inr macros"
    and gen: "generateShader_compile info s w = (r, s', w')"
  shows "\<exists>vertex_source fragment_source geometry_shader_ptr.
           gpu_calls w' = gpu_calls w @
             [AddHighLevelShaderMaterial
                (shaders_header_version w @ macros @ vertex_header w @ final_header @ vertex_source)
                (shaders_header_version w @ macros @ fragment_header w @ final_header @ fragment_source)
                geometry_shader_ptr
                (make_log_name w (name info) (input_constants info))
                (m_uniform_factories s) (base_material info)]"
proof -
  obtain vs c1 w1 where l1:
    "SourceShaderCache_getOrLoad (name info) ''opengl_vertex.glsl'' (m_sourcecache s) w = (vs, c1, w1)"
    by (cases "SourceShaderCache_getOrLoad (name info) ''opengl_vertex.glsl'' (m_sourcecache s) w") auto
  obtain fs c2 w2 where l2:
    "SourceShaderCache_getOrLoad (name info) ''opengl_fragment.glsl'' c1 w1 = (fs, c2, w2)"
    by (cases "SourceShaderCache_getOrLoad (name info) ''opengl_fragment.glsl'' c1 w1") auto
  obtain gs c3 w3 where l3:
    "SourceShaderCache_getOrLoad (name info) ''opengl_geometry.glsl'' c2 w2 = (gs, c3, w3)"
    by (cases "SourceShaderCache_getOrLoad (name info) ''opengl_geometry.glsl'' c2 w2") auto
  have calls: "gpu_calls w3 = gpu_calls w"
    using getOrLoad_gpu_calls [OF l1] getOrLoad_gpu_calls [OF l2] getOrLoad_gpu_calls [OF l3]
    by simp
  from gen emit l1 l2 l3 calls show ?thesis
    by (auto simp: generateShader_compile_def Let_def split: if_splits)
qed

lemma setter_source_order:
  "m_constant_setters setter_source =
     [MainShaderConstantSetter_onGenerate, first_setter] @ [second_setter] @ [bar_setter]"
  by (simp add: setter_source_def addShaderConstantSetter_def ShaderSource_new_def)

lemma setter_source_generated:
  "fst (generateShader ''fancynode'' [] EMT_SOLID setter_source sample_gl_world) =
     Inr \<lparr>name = ''fancynode'', base_material = EMT_SOLID, material = 24, input_constants = []\<rparr>"
  by code_simp

text \<open>
  C8. The setters run in the order of \<open>m_constant_setters\<close>, to which
  \<open>addShaderConstantSetter\<close> appends. When a setter defines a key and no setter
  registered after it touches that key, the constants of a generation hold that
  setter's value for the key, whatever the setters registered before it wrote; and when
  the generation reaches the compiler and succeeds, the vertex and the fragment shader
  handed to the compiler hold the \<^verbatim>\<open>#define\<close> line of the key with that value.
\<close>

theorem later_setter_wins:
  assumes order: "m_constant_setters s = earlier @ [later] @ others"
    and writes_key: "\<forall>c. map_of (later w shader_name c) key = Some v"
    and untouched: "\<forall>setter\<in>set others. \<forall>c. map_of (setter w shader_name c) key = map_of c key"
  shows "map_of (generated_constants (m_constant_setters s) w shader_name input_const base_mat) key = Some v \<and>
         (\<forall>r s' w'. generateShader shader_name input_const base_mat s w = (Inr r, s', w') \<and>
                    driverType w \<noteq> EDT_NULL \<longrightarrow>
            (\<exists>vertex_shader fragment_shader geometry_shader_ptr log_name pre post pre' post'.
               gpu_calls w' = gpu_calls w @
                 [AddHighLevelShaderMaterial vertex_shader fragment_shader geometry_shader_ptr
                    log_name (m_uniform_factories s) base_mat] \<and>
               vertex_shader = pre @ ''#define '' @ key @ '' '' @ putConstant w True v @ ''\<newline>'' @ post \<and>
               fragment_shader = pre' @ ''#define '' @ key @ '' '' @ putConstant w True v @ ''\<newline>'' @ post'))"
proof (intro conjI allI impI)
  let ?constants = "generated_constants (m_constant_setters s) w shader_name input_const base_mat"
  show final: "map_of ?constants key = Some v"
    using writes_key run_setters_untouched [OF untouched]
    by (simp add: generated_constants_def order run_setters_append)
  fix r s' w'
  assume "generateShader shader_name input_const base_mat s w = (Inr r, s', w') \<and> driverType w \<noteq> EDT_NULL"
  then have gen: "generateShader_compile
      \<lparr>name = shader_name, base_material = base_mat, material = base_mat, input_constants = input_const\<rparr>
      s w = (Inr r, s', w')"
    by (auto simp: generateShader_def Let_def split: if_splits)
  then obtain macros where emit: "emit_constants w ?constants = Inr macros"
    by (cases "emit_constants w ?constants") (auto simp: generateShader_compile_def Let_def)
  from final have member: "(key, v) \<in> set ?constants" by (rule map_of_SomeD)
  from emit_constants_line [OF emit member] obtain p q
    where line: "macros = p @ ''#define '' @ key @ '' '' @ putConstant w True v @ ''\<newline>'' @ q"
    by blast
  from generateShader_compile_call [OF _ gen] emit obtain vsrc fsrc gptr
    where call: "gpu_calls w' = gpu_calls w @
             [AddHighLevelShaderMaterial
                (shaders_header_version w @ macros @ vertex_header w @ final_header @ vsrc)
                (shaders_header_version w @ macros @ fragment_header w @ final_header @ fsrc)
                gptr (make_log_name w shader_name input_const) (m_uniform_factories s) base_mat]"
    by auto
  have v: "shaders_header_version w @ macros @ vertex_header w @ final_header @ vsrc =
        (shaders_header_version w @ p) @ ''#define '' @ key @ '' '' @ putConstant w True v @ ''\<newline>''
        @ (q @ vertex_header w @ final_header @ vsrc)"
    by (simp add: line)
  have f: "shaders_header_version w @ macros @ fragment_header w @ final_header @ fsrc =
        (shaders_header_version w @ p) @ ''#define '' @ key @ '' '' @ putConstant w True v @ ''\<newline>''
        @ (q @ fragment_header w @ final_header @ fsrc)"
    by (simp add: line)
  from call v f show "\<exists>vertex_shader fragment_shader geometry_shader_ptr log_name pre post pre' post'.
               gpu_calls w' = gpu_calls w @
                 [AddHighLevelShaderMaterial vertex_shader fragment_shader geometry_shader_ptr
                    log_name (m_uniform_factories s) base_mat] \<and>
               vertex_shader = pre @ ''#define '' @ key @ '' '' @ putConstant w True v @ ''\<newline>'' @ post \<and>
               fragment_shader = pre' @ ''#define '' @ key @ '' '' @ putConstant w True v @ ''\<newline>'' @ post'"
    by blast
qed

theorem later_setter_wins_witness:
  "m_constant_setters setter_source =
     [MainShaderConstantSetter_onGenerate, first_setter] @ [second_setter] @ [bar_setter] \<and>
   map_of (first_setter sample_gl_world ''fancynode'' []) ''FOO'' = Some (IntConst 1) \<and>
   map_of (second_setter sample_gl_world ''fancynode'' []) ''FOO'' = Some (IntConst 2) \<and>
   map_of (generated_constants (m_constant_setters setter_source) sample_gl_world ''fancynode'' []
             EMT_SOLID) ''FOO'' = Some (IntConst 2) \<and>
   driverType sample_gl_world \<noteq> EDT_NULL \<and>
   fst (generateShader ''fancynode'' [] EMT_SOLID setter_source sample_gl_world) =
     Inr \<lparr>name = ''fancynode'', base_material = EMT_SOLID, material = 24, input_constants = []\<rparr> \<and>
   (\<exists>vertex_shader fragment_shader geometry_shader_ptr log_name pre post pre' post'.
      gpu_calls (snd (snd (generateShader ''fancynode'' [] EMT_SOLID setter_source sample_gl_world))) =
        gpu_calls sample_gl_world @
          [AddHighLevelShaderMaterial vertex_shader fragment_shader geometry_shader_ptr
             log_name (m_uniform_factories setter_source) EMT_SOLID] \<and>
      vertex_shader = pre @ ''#define '' @ ''FOO'' @ '' '' @
                        putConstant sample_gl_world True (IntConst 2) @ ''\<newline>'' @ post \<and>
      fragment_shader = pre' @ ''#define '' @ ''FOO'' @ '' '' @
                        putConstant sample_gl_world True (IntConst 2) @ ''\<newline>'' @ post')"
proof -
  have writes: "\<forall>c. map_of (second_setter sample_gl_world ''fancynode'' c) ''FOO'' = Some (IntConst 2)"
    by (simp add: second_setter_def map_of_assign)
  have untouched: "\<forall>setter\<in>set [bar_setter]. \<forall>c.
      map_of (setter sample_gl_world ''fancynode'' c) ''FOO'' = map_of c ''FOO''"
    by (simp add: bar_setter_def map_of_assign)
  note wins = later_setter_wins [OF setter_source_order writes untouched, of "[]" EMT_SOLID]
  have generated: "generateShader ''fancynode'' [] EMT_SOLID setter_source sample_gl_world =
      (Inr \<lparr>name = ''fancynode'', base_material = EMT_SOLID, material = 24, input_constants = []\<rparr>,
       fst (snd (generateShader ''fancynode'' [] EMT_SOLID setter_source sample_gl_world)),
       snd (snd (generateShader ''fancynode'' [] EMT_SOLID setter_source sample_gl_world)))"
    using setter_source_generated by (metis prod.collapse)
  have driver: "driverType sample_gl_world \<noteq> EDT_NULL"
    by (simp add: sample_gl_world_def sample_world_def)
  from wins generated driver
  have call: "\<exists>vertex_shader fragment_shader geometry_shader_ptr log_name pre post pre' post'.
      gpu_calls (snd (snd (generateShader ''fancynode'' [] EMT_SOLID setter_source sample_gl_world))) =
        gpu_calls sample_gl_world @
          [AddHighLevelShaderMaterial vertex_shader fragment_shader geometry_shader_ptr
             log_name (m_uniform_factories setter_source) EMT_SOLID] \<and>
      vertex_shader = pre @ ''#define '' @ ''FOO'' @ '' '' @
                        putConstant sample_gl_world True (IntConst 2) @ ''\<newline>'' @ post \<and>
      fragment_shader = pre' @ ''#define '' @ ''FOO'' @ '' '' @
                        putConstant sample_gl_world True (IntConst 2) @ ''\<newline>'' @ post'"
    by blast
  have firsts: "map_of (first_setter sample_gl_world ''fancynode'' []) ''FOO'' = Some (IntConst 1)"
    "map_of (second_setter sample_gl_world ''fancynode'' []) ''FOO'' = Some (IntConst 2)"
    by (simp_all add: first_setter_def second_setter_def)
  from wins call firsts setter_source_order driver setter_source_generated show ?thesis by blast
qed

subsection \<open>The name for the log\<close>

lemma log_name_loop_complete:
  "(\<forall>i<length c. length (log_name @ constant_pairs w (take i c)) \<le> 60) \<Longrightarrow>
     log_name_loop w log_name c = log_name @ constant_pairs w c"
proof (induction c arbitrary: log_name)
  case Nil
  then show ?case by simp
next
  case (Cons kv rest)
  obtain key v where kv: "kv = (key, v)" by (cases kv)
  from Cons.prems [rule_format, of 0] have short: "\<not> 60 < length log_name" by simp
  have "\<forall>i<length rest.
          length ((log_name @ '' '' @ key @ ''='' @ putConstant w False v) @ constant_pairs w (take i rest)) \<le> 60"
  proof (intro allI impI)
    fix i assume "i < length rest"
    then have "Suc i < length (kv # rest)" by simp
    from Cons.prems [rule_format, OF this] show
      "length ((log_name @ '' '' @ key @ ''='' @ putConstant w False v) @ constant_pairs w (take i rest)) \<le> 60"
      by (simp add: kv)
  qed
  from Cons.IH [OF this] short show ?case by (simp add: kv)
qed

lemma log_name_loop_truncated:
  "i < length c \<Longrightarrow> 60 < length (log_name @ constant_pairs w (take i c)) \<Longrightarrow>
   (\<forall>j<i. length (log_name @ constant_pairs w (take j c)) \<le> 60) \<Longrightarrow>
     log_name_loop w log_name c = log_name @ constant_pairs w (take i c) @ ''...''"
proof (induction c arbitrary: log_name i)
  case Nil
  then show ?case by simp
next
  case (Cons kv rest)
  obtain key v where kv: "kv = (key, v)" by (cases kv)
  show ?case
  proof (cases i)
    case 0
    with Cons.prems show ?thesis by (simp add: kv)
  next
    case (Suc i')
    with Cons.prems(3) [rule_format, of 0] have short: "\<not> 60 < length log_name" by simp
    let ?next = "log_name @ '' '' @ key @ ''='' @ putConstant w False v"
    have a: "i' < length rest" using Cons.prems(1) Suc by simp
    have b: "60 < length (?next @ constant_pairs w (take i' rest))"
      using Cons.prems(2) Suc by (simp add: kv)
    have c: "\<forall>j<i'. length (?next @ constant_pairs w (take j rest)) \<le> 60"
    proof (intro allI impI)
      fix j assume "j < i'"
      then have "Suc j < i" using Suc by simp
      from Cons.prems(3) [rule_format, OF this] show
        "length (?next @ constant_pairs w (take j rest)) \<le> 60" by (simp add: kv)
    qed
    from Cons.IH [OF a b c] short Suc show ?thesis by (simp add: kv)
  qed
qed

text \<open>
  C9, as the code has it. \<open>log_name\<close> starts as the shader's name and receives the
  constants in iteration order, each as a space and \<open>key=value\<close>. Before each constant
  the size of the whole name built so far, the shader's name included, is tested: when
  it is more than 60, three dots are appended and the loop ends. So the name is
  complete when the test never fires, and otherwise it ends, with the dots, after the
  first prefix of the constants that brings it beyond 60 characters. The name goes to
  the compiler and the log only; the scan does not depend on anything but the name,
  base material and constants of the records, whatever materials they hold.
\<close>

theorem log_name_budget:
  "((\<forall>i<length input_const.
       length (shader_name @ constant_pairs w (take i input_const)) \<le> 60) \<longrightarrow>
     make_log_name w shader_name input_const = shader_name @ constant_pairs w input_const) \<and>
   (i < length input_const \<and>
    60 < length (shader_name @ constant_pairs w (take i input_const)) \<and>
    (\<forall>j<i. length (shader_name @ constant_pairs w (take j input_const)) \<le> 60) \<longrightarrow>
     make_log_name w shader_name input_const =
       shader_name @ constant_pairs w (take i input_const) @ ''...'') \<and>
   find_shader (map (\<lambda>info. info\<lparr>material := handle info\<rparr>) cache) 0 shader_name input_const base_mat =
     find_shader cache 0 shader_name input_const base_mat"
  using log_name_loop_complete [of input_const shader_name w]
    log_name_loop_truncated [of i input_const shader_name w]
    find_shader_ignores_material [of handle cache 0 shader_name input_const base_mat]
  by (simp add: make_log_name_def)

theorem log_name_budget_witness:
  "make_log_name sample_world ''fancynode'' sample_constants =
     ''fancynode'' @ constant_pairs sample_world sample_constants \<and>
   make_log_name sample_world ''nodes_shader'' long_constants =
     ''nodes_shader'' @ constant_pairs sample_world (take 3 long_constants) @ ''...'' \<and>
   find_shader (map (\<lambda>info. info\<lparr>material := 24\<rparr>) (m_shaderinfo_cache sample_source)) 0
       ''fancynode'' sample_constants EMT_SOLID =
     find_shader (m_shaderinfo_cache sample_source) 0 ''fancynode'' sample_constants EMT_SOLID"
proof -
  have short: "\<forall>i<length sample_constants.
      length (''fancynode'' @ constant_pairs sample_world (take i sample_constants)) \<le> 60"
    by (simp add: sample_constants_def putConstant_def dec_int_1 dec_int_2 All_less_Suc)
  have long: "3 < length long_constants \<and>
      60 < length (''nodes_shader'' @ constant_pairs sample_world (take 3 long_constants)) \<and>
      (\<forall>j<3. length (''nodes_shader'' @ constant_pairs sample_world (take j long_constants)) \<le> 60)"
    by (simp add: long_constants_def putConstant_def dec_int_1 dec_int_2 all_less_three)
  from log_name_budget [of sample_constants "''fancynode''" sample_world 0 "\<lambda>info. 24"
      "m_shaderinfo_cache sample_source" EMT_SOLID] short
    log_name_budget [of long_constants "''nodes_shader''" sample_world 3 "\<lambda>info. 24" "[]" EMT_SOLID] long
  show ?thesis by blast
qed

text \<open>
  The budget is not one of characters of constants: with a name of 12 characters the
  name for the log is cut after 50 characters of constants, though all the constants
  together take 54.
\<close>

theorem log_name_budget_counterexample:
  "length (constant_pairs sample_world long_constants) \<le> 60 \<and>
   make_log_name sample_world ''nodes_shader'' long_constants =
     ''nodes_shader DRAWTYPE=2 ENABLE_WAVING_LEAVES=1 MATERIAL_TYPE=1...''"
  by (simp add: long_constants_def make_log_name_def putConstant_def dec_int_1 dec_int_2)

subsection \<open>The direct entry from another thread\<close>

text \<open>
  C10. In \<open>getShaderIdDirect\<close> the scan comes before the test of the calling thread.
  Called with a name by another thread than the main thread, it returns the index of
  the first record that matches the request when there is one (not 0, the record at
  index 0 having no name), and leaves everything as it was; when no record matches it
  returns 0 and writes one line to the error stream.
\<close>

theorem getShaderIdDirect_other_thread:
  assumes "shader_name \<noteq> []" and "this_thread \<noteq> m_main_thread s"
  shows "(i < length (m_shaderinfo_cache s) \<and>
          shader_matches (m_shaderinfo_cache s ! i) shader_name input_const base_mat \<and>
          (\<forall>j<i. \<not> shader_matches (m_shaderinfo_cache s ! j) shader_name input_const base_mat)
          \<longrightarrow> getShaderIdDirect this_thread shader_name input_const base_mat s w = (Inr i, s, w)
              \<and> (name (m_shaderinfo_cache s ! 0) = [] \<longrightarrow> i \<noteq> 0))
       \<and> ((\<forall>j<length (m_shaderinfo_cache s).
               \<not> shader_matches (m_shaderinfo_cache s ! j) shader_name input_const base_mat)
          \<longrightarrow> getShaderIdDirect this_thread shader_name input_const base_mat s w =
                (Inr 0, s, w\<lparr>errorstream := errorstream w @
                   [''ShaderSource::getShaderIdDirect() called not from main thread'']\<rparr>))"
proof (intro conjI impI)
  assume h: "i < length (m_shaderinfo_cache s) \<and>
          shader_matches (m_shaderinfo_cache s ! i) shader_name input_const base_mat \<and>
          (\<forall>j<i. \<not> shader_matches (m_shaderinfo_cache s ! j) shader_name input_const base_mat)"
  then have "find_shader (m_shaderinfo_cache s) 0 shader_name input_const base_mat = Some i"
    by (simp add: find_shader_Some)
  then show "getShaderIdDirect this_thread shader_name input_const base_mat s w = (Inr i, s, w)"
    using assms by (simp add: getShaderIdDirect_def)
  assume "name (m_shaderinfo_cache s ! 0) = []"
  with h assms show "i \<noteq> 0" unfolding shader_matches_def by metis
next
  assume "\<forall>j<length (m_shaderinfo_cache s).
               \<not> shader_matches (m_shaderinfo_cache s ! j) shader_name input_const base_mat"
  then have "find_shader (m_shaderinfo_cache s) 0 shader_name input_const base_mat = None"
    by (simp add: find_shader_None)
  then show "getShaderIdDirect this_thread shader_name input_const base_mat s w =
                (Inr 0, s, w\<lparr>errorstream := errorstream w @
                   [''ShaderSource::getShaderIdDirect() called not from main thread'']\<rparr>)"
    using assms by (simp add: getShaderIdDirect_def)
qed

theorem getShaderIdDirect_other_thread_witness:
  "getShaderIdDirect 1 ''fancynode'' sample_constants EMT_SOLID sample_source sample_world =
     (Inr 1, sample_source, sample_world) \<and>
   getShaderIdDirect 1 ''fancynode'' [] EMT_SOLID sample_source sample_world =
     (Inr 0, sample_source, sample_world\<lparr>errorstream := errorstream sample_world @
        [''ShaderSource::getShaderIdDirect() called not from main thread'']\<rparr>)"
proof -
  have named: "''fancynode'' \<noteq> []" by simp
  have other: "1 \<noteq> m_main_thread sample_source"
    by (simp add: sample_source_main_thread)
  have hit: "1 < length (m_shaderinfo_cache sample_source) \<and>
      shader_matches (m_shaderinfo_cache sample_source ! 1) ''fancynode'' sample_constants EMT_SOLID \<and>
      (\<forall>j<1. \<not> shader_matches (m_shaderinfo_cache sample_source ! j) ''fancynode'' sample_constants EMT_SOLID)"
    by (simp add: sample_source_cache shader_matches_def sample_constants_def ShaderInfo_default_def)
  have miss: "\<forall>j<length (m_shaderinfo_cache sample_source).
      \<not> shader_matches (m_shaderinfo_cache sample_source ! j) ''fancynode'' [] EMT_SOLID"
    by (simp add: sample_source_cache shader_matches_def sample_constants_def ShaderInfo_default_def
        less_Suc_eq)
  from getShaderIdDirect_other_thread [OF named other, of 1 sample_constants EMT_SOLID sample_world] hit
  have first: "getShaderIdDirect 1 ''fancynode'' sample_constants EMT_SOLID sample_source sample_world =
     (Inr 1, sample_source, sample_world)" by blast
  from getShaderIdDirect_other_thread [OF named other, of 1 "[]" EMT_SOLID sample_world] miss
  have second: "getShaderIdDirect 1 ''fancynode'' [] EMT_SOLID sample_source sample_world =
     (Inr 0, sample_source, sample_world\<lparr>errorstream := errorstream sample_world @
        [''ShaderSource::getShaderIdDirect() called not from main thread'']\<rparr>)" by blast
  from first second show ?thesis by blast
qed

end
